theory Spec2Isabelle
  imports Main "HOL-Library.Multiset"
begin

section \<open>The memory game of script.js\<close>

text \<open>
  The script keeps one global variable \<open>gameState\<close>, a grid of card objects, and a
  set of timers (\<open>setInterval\<close>, \<open>setTimeout\<close>) whose callbacks read that global
  variable when they run. The embedding passes the whole of it around as a \<open>world\<close>:
  the value of \<open>gameState\<close>, the store of card objects (a callback keeps references to
  card objects, so objects are addressed), the timers that are scheduled, and the few DOM
  texts that carry a result (the active screen, the win screen).

  Numbers are \<open>int\<close>: the script only counts and subtracts small integers. A call that
  throws is the outcome \<open>Threw\<close> with the world as the throw leaves it.
\<close>

subsection \<open>gameConfig\<close>

text \<open>A flower is a string; it is written here as its list of Unicode code points.\<close>

type_synonym symbol = "int list"

record config =
  rows :: nat
  cols :: nat
  pairs :: nat

text \<open>
  \<open>gameConfig.difficulties[name]\<close> reads a property of an object literal: one of the
  three presets, a member inherited from \<open>Object.prototype\<close> (a function, or the
  prototype itself for \<open>__proto__\<close>: an object whose \<open>cols\<close> and \<open>pairs\<close> are
  \<open>undefined\<close>), or \<open>undefined\<close>.
\<close>

datatype jsconfig = Undefined | Preset config | Inherited

definition object_prototype_members :: "string list" where
  "object_prototype_members =
     [''constructor'', ''hasOwnProperty'', ''isPrototypeOf'', ''propertyIsEnumerable'',
      ''toLocaleString'', ''toString'', ''valueOf'', ''__proto__'',
      ''__defineGetter__'', ''__defineSetter__'', ''__lookupGetter__'', ''__lookupSetter__'']"

definition difficulties :: "string \<Rightarrow> jsconfig" where
  "difficulties name =
     (if name = ''easy'' then Preset \<lparr>rows = 4, cols = 4, pairs = 8\<rparr>
      else if name = ''medium'' then Preset \<lparr>rows = 4, cols = 5, pairs = 10\<rparr>
      else if name = ''hard'' then Preset \<lparr>rows = 5, cols = 6, pairs = 15\<rparr>
      else if name \<in> set object_prototype_members then Inherited
      else Undefined)"

definition flowers :: "symbol list" where
  "flowers =
     [[0x1F338], [0x1F33A], [0x1F339], [0x1F33B], [0x1F33C], [0x1F490], [0x1F337],
      [0x1F33F], [0x1F940], [0x1FAB7], [0x1F33E], [0x1F340], [0x1F331], [0x2618, 0xFE0F],
      [0x1F38B]]"

subsection \<open>The state\<close>

record cardObj =
  card_id :: int
  card_value :: symbol
  flipped :: bool
  matched :: bool

text \<open>
  The object \<open>gameState\<close>. \<open>cards\<close> holds references to card objects;
  \<open>timerInterval\<close> is \<open>null\<close> or the handle \<open>setInterval\<close> returned (a positive
  integer, so a handle is truthy).
\<close>

record game_state =
  cards :: "nat list"
  flippedCards :: "int list"
  matchedPairs :: int
  moveCount :: int
  gameActive :: bool
  timer :: int
  timerInterval :: "nat option"
  currentDifficulty :: string
  hints :: int

text \<open>
  What a scheduled callback does when it runs. The flip-back closure of
  \<open>handleCardClick\<close> captures the two card objects \<open>firstCard\<close> and \<open>secondCard\<close>;
  the closure \<open>hint\<close> schedules captures the card element it highlighted, named here
  by the id it was looked up with. Every callback reaches \<open>gameState\<close> through the
  global variable.
\<close>

datatype callback = Tick | FlipBack nat nat | ShowWin | HintOff int

record world =
  gameState :: game_state
  heap :: "nat \<Rightarrow> cardObj"
  nextRef :: nat
  scheduled :: "(nat \<times> callback) list"
  nextHandle :: nat
  activeScreen :: string
  quitModal :: bool
  winScreen :: "(int \<times> int \<times> int option) option"

datatype error = TypeError

datatype outcome = Returned world | Threw error world

definition initial_game_state :: game_state where
  "initial_game_state =
     \<lparr>cards = [], flippedCards = [], matchedPairs = 0, moveCount = 0, gameActive = False,
      timer = 0, timerInterval = None, currentDifficulty = ''easy'', hints = 3\<rparr>"

definition initial_world :: world where
  "initial_world =
     \<lparr>gameState = initial_game_state,
      heap = (\<lambda>r. \<lparr>card_id = 0, card_value = [], flipped = False, matched = False\<rparr>),
      nextRef = 0, scheduled = [], nextHandle = 1,
      activeScreen = ''main-screen'', quitModal = False, winScreen = None\<rparr>"

subsection \<open>Timers\<close>

definition setTimer :: "callback \<Rightarrow> world \<Rightarrow> world" where
  "setTimer cb w =
     w\<lparr>scheduled := scheduled w @ [(nextHandle w, cb)], nextHandle := nextHandle w + 1\<rparr>"

definition clearInterval :: "nat option \<Rightarrow> world \<Rightarrow> world" where
  "clearInterval h w =
     (case h of None \<Rightarrow> w
      | Some k \<Rightarrow> w\<lparr>scheduled := filter (\<lambda>e. fst e \<noteq> k) (scheduled w)\<rparr>)"

subsection \<open>showScreen\<close>

definition showScreen :: "string \<Rightarrow> world \<Rightarrow> world" where
  "showScreen screenId w =
     (let w1 = w\<lparr>activeScreen := screenId\<rparr> in
      if screenId \<noteq> ''game-screen'' \<and> timerInterval (gameState w1) \<noteq> None
      then (clearInterval (timerInterval (gameState w1)) w1)
             \<lparr>gameState := (gameState w1)\<lparr>timerInterval := None\<rparr>\<rparr>
      else w1)"

subsection \<open>shuffleArray\<close>

text \<open>
  \<open>rand i\<close> stands for \<open>Math.floor(Math.random() * (i + 1))\<close> at loop index \<open>i\<close>
  (the loop visits every index once); \<open>Math.random\<close> returns a number in \<open>[0, 1)\<close>,
  so \<open>rand i \<le> i\<close>. The array is an object: \<open>shuffleArray\<close> takes a reference,
  swaps in place and returns the reference it was given.
\<close>

definition swap :: "nat \<Rightarrow> nat \<Rightarrow> 'a list \<Rightarrow> 'a list" where
  "swap i j xs = xs[i := xs ! j, j := xs ! i]"

fun shuffle_loop :: "(nat \<Rightarrow> nat) \<Rightarrow> nat \<Rightarrow> 'a list \<Rightarrow> 'a list" where
  "shuffle_loop rand 0 xs = xs"
| "shuffle_loop rand (Suc k) xs = shuffle_loop rand k (swap (Suc k) (rand (Suc k)) xs)"

definition shuffleArray ::
  "(nat \<Rightarrow> nat) \<Rightarrow> nat \<Rightarrow> (nat \<Rightarrow> 'a list) \<Rightarrow> nat \<times> (nat \<Rightarrow> 'a list)" where
  "shuffleArray rand array store =
     (array, store(array := shuffle_loop rand (length (store array) - 1) (store array)))"

text \<open>The store whose only array, at the reference 0, holds \<open>xs\<close>.\<close>

definition single_array :: "'a list \<Rightarrow> nat \<Rightarrow> 'a list" where
  "single_array xs = (\<lambda>a. [])(0 := xs)"

subsection \<open>Sequencing calls that may throw\<close>

definition world_of :: "outcome \<Rightarrow> world" where
  "world_of out = (case out of Returned w \<Rightarrow> w | Threw e w \<Rightarrow> w)"

definition and_then :: "outcome \<Rightarrow> (world \<Rightarrow> outcome) \<Rightarrow> outcome" where
  "and_then out f = (case out of Returned w \<Rightarrow> f w | Threw e w \<Rightarrow> Threw e w)"

subsection \<open>createCards, updateScore, startTimer, startGame\<close>

text \<open>
  \<open>createCards\<close> reads \<open>config.cols\<close> first, which throws a TypeError when \<open>config\<close>
  is \<open>undefined\<close>. \<open>flowers.slice(0, config.pairs)\<close> is the whole list when
  \<open>config.pairs\<close> is \<open>undefined\<close>. The array \<open>cardValues\<close> is a fresh object (the
  spread), here the only cell of a local store. Each card is a new object: the cards of
  the new grid are the references \<open>nextRef w, nextRef w + 1, ...\<close>.
\<close>

definition new_card :: "symbol list \<Rightarrow> nat \<Rightarrow> cardObj" where
  "new_card cardValues index =
     \<lparr>card_id = int index, card_value = cardValues ! index, flipped = False, matched = False\<rparr>"

definition createCards :: "(nat \<Rightarrow> nat) \<Rightarrow> jsconfig \<Rightarrow> world \<Rightarrow> outcome" where
  "createCards rand cfg w =
     (case cfg of
        Undefined \<Rightarrow> Threw TypeError w
      | _ \<Rightarrow>
        (let selectedFlowers = (case cfg of Preset c \<Rightarrow> take (pairs c) flowers | _ \<Rightarrow> flowers);
             store = single_array (selectedFlowers @ selectedFlowers);
             cardValues = snd (shuffleArray rand 0 store) (fst (shuffleArray rand 0 store));
             n = length cardValues;
             base = nextRef w
         in Returned
              (w\<lparr>heap := (\<lambda>r. if base \<le> r \<and> r < base + n then new_card cardValues (r - base)
                             else heap w r),
                 nextRef := base + n,
                 gameState := (gameState w)\<lparr>cards := map (\<lambda>i. base + i) [0..<n]\<rparr>\<rparr>)))"

text \<open>\<open>updateScore\<close> only writes texts, but it reads \<open>config.pairs\<close>.\<close>

definition updateScore :: "world \<Rightarrow> outcome" where
  "updateScore w =
     (case difficulties (currentDifficulty (gameState w)) of
        Undefined \<Rightarrow> Threw TypeError w
      | _ \<Rightarrow> Returned w)"

definition startTimer :: "world \<Rightarrow> world" where
  "startTimer w =
     (let w1 = (if timerInterval (gameState w) \<noteq> None
                then clearInterval (timerInterval (gameState w)) w else w);
          w2 = w1\<lparr>gameState := (gameState w1)\<lparr>timer := 0\<rparr>\<rparr>;
          w3 = setTimer Tick w2
      in w3\<lparr>gameState := (gameState w3)\<lparr>timerInterval := Some (nextHandle w2)\<rparr>\<rparr>)"

definition fresh_game_state :: "string \<Rightarrow> game_state" where
  "fresh_game_state difficulty =
     \<lparr>cards = [], flippedCards = [], matchedPairs = 0, moveCount = 0, gameActive = True,
      timer = 0, timerInterval = None, currentDifficulty = difficulty, hints = 3\<rparr>"

text \<open>
  \<open>startGame\<close> first writes \<open>currentDifficulty\<close> into the old state object, which the
  next statement replaces whole; the old timer handle goes with it.
\<close>

definition startGame :: "(nat \<Rightarrow> nat) \<Rightarrow> string \<Rightarrow> world \<Rightarrow> outcome" where
  "startGame rand difficulty w =
     (let cfg = difficulties difficulty;
          w1 = w\<lparr>gameState := fresh_game_state difficulty\<rparr>
      in and_then (createCards rand cfg w1) (\<lambda>w2.
         and_then (updateScore w2) (\<lambda>w3.
         Returned (startTimer (showScreen ''game-screen'' w3)))))"

subsection \<open>showWinScreen\<close>

definition difficultyBonus :: "string \<Rightarrow> int option" where
  "difficultyBonus name =
     (if name = ''easy'' then Some 100
      else if name = ''medium'' then Some 200
      else if name = ''hard'' then Some 300
      else None)"

text \<open>
  The total is a number for the three presets. For any other name \<open>config.pairs * 10\<close>
  is not a number and neither is the total: \<open>None\<close>.
\<close>

definition showWinScreen :: "world \<Rightarrow> outcome" where
  "showWinScreen w =
     (let w1 = clearInterval (timerInterval (gameState w)) w;
          w2 = w1\<lparr>gameState := (gameState w1)\<lparr>gameActive := False\<rparr>\<rparr>;
          g = gameState w2
      in case difficulties (currentDifficulty g) of
           Undefined \<Rightarrow> Threw TypeError w2
         | cfg \<Rightarrow>
           (let timeBonus = max 0 (300 - timer g);
                moveBonus = (case cfg of Preset c \<Rightarrow> Some (max 0 (int (pairs c) * 10 - moveCount g))
                             | _ \<Rightarrow> None);
                totalScore = (case (moveBonus, difficultyBonus (currentDifficulty g)) of
                                (Some m, Some b) \<Rightarrow> Some (timeBonus + m + b)
                              | _ \<Rightarrow> None)
            in Returned (showScreen ''win-screen''
                 (w2\<lparr>winScreen := Some (timer g, moveCount g, totalScore)\<rparr>))))"

subsection \<open>handleCardClick\<close>

text \<open>\<open>gameState.cards[cardId]\<close>: \<open>undefined\<close> when \<open>cardId\<close> is not an index.\<close>

definition card_at :: "nat list \<Rightarrow> int \<Rightarrow> nat option" where
  "card_at cs cardId =
     (if 0 \<le> cardId \<and> cardId < int (length cs) then Some (cs ! nat cardId) else None)"

definition set_flipped :: "nat \<Rightarrow> bool \<Rightarrow> world \<Rightarrow> world" where
  "set_flipped r b w = w\<lparr>heap := (heap w)(r := (heap w r)\<lparr>flipped := b\<rparr>)\<rparr>"

definition set_matched :: "nat \<Rightarrow> bool \<Rightarrow> world \<Rightarrow> world" where
  "set_matched r b w = w\<lparr>heap := (heap w)(r := (heap w r)\<lparr>matched := b\<rparr>)\<rparr>"

text \<open>The branch taken once two cards are face up.\<close>

definition resolve_pair :: "world \<Rightarrow> outcome" where
  "resolve_pair w =
     (let w1 = w\<lparr>gameState := (gameState w)\<lparr>moveCount := moveCount (gameState w) + 1\<rparr>\<rparr>
      in and_then (updateScore w1) (\<lambda>w2.
         let g = gameState w2;
             firstId = flippedCards g ! 0;
             secondId = flippedCards g ! 1
         in case (card_at (cards g) firstId, card_at (cards g) secondId) of
              (Some firstCard, Some secondCard) \<Rightarrow>
                if card_value (heap w2 firstCard) = card_value (heap w2 secondCard) then
                  (let w3 = set_matched secondCard True (set_matched firstCard True w2);
                       w4 = w3\<lparr>gameState := (gameState w3)
                              \<lparr>matchedPairs := matchedPairs (gameState w3) + 1,
                               flippedCards := []\<rparr>\<rparr>
                   in case difficulties (currentDifficulty (gameState w4)) of
                        Undefined \<Rightarrow> Threw TypeError w4
                      | Preset c \<Rightarrow>
                          if matchedPairs (gameState w4) = int (pairs c)
                          then Returned (setTimer ShowWin w4) else Returned w4
                      | Inherited \<Rightarrow> Returned w4)
                else Returned (setTimer (FlipBack firstCard secondCard) w2)
            | _ \<Rightarrow> Threw TypeError w2))"

definition handleCardClick :: "int \<Rightarrow> world \<Rightarrow> outcome" where
  "handleCardClick cardId w =
     (if \<not> gameActive (gameState w) then Returned w
      else case card_at (cards (gameState w)) cardId of
        None \<Rightarrow> Threw TypeError w
      | Some c \<Rightarrow>
          if flipped (heap w c) \<or> matched (heap w c) \<or> length (flippedCards (gameState w)) \<ge> 2
          then Returned w
          else
            (let w1 = set_flipped c True w;
                 w2 = w1\<lparr>gameState := (gameState w1)
                        \<lparr>flippedCards := flippedCards (gameState w1) @ [cardId]\<rparr>\<rparr>
             in if length (flippedCards (gameState w2)) = 2 then resolve_pair w2
                else Returned w2))"

subsection \<open>hint\<close>

text \<open>
  \<open>flowerGroups\<close> is an object used as a dictionary from a flower to the ids pushed
  for it. \<open>for ... in\<close> visits its keys in the order they were inserted (no flower is an
  integer-like key or the name of a member of \<open>Object.prototype\<close>), so it is an
  association list that keeps the order of insertion.

  For each id of the pair, in order, the card element at that position of the page gets
  the class \<open>hint\<close> and a timeout is set that takes the class off again 1000 ms later;
  then a hint is taken off. The class is presentation and is not part of the world; the
  two timeouts are. The page holds one card element per card of the grid (\<open>renderCards\<close>)
  and the ids are the positions in the grid (\<open>createCards\<close>), so the element looked
  up exists. The pair chosen (the variable \<open>hintPair\<close>) is returned.
\<close>

definition push_group :: "(symbol \<times> int list) list \<Rightarrow> cardObj \<Rightarrow> (symbol \<times> int list) list" where
  "push_group groups c =
     (case map_of groups (card_value c) of
        None \<Rightarrow> groups @ [(card_value c, [card_id c])]
      | Some ids \<Rightarrow>
          map (\<lambda>g. if fst g = card_value c then (fst g, snd g @ [card_id c]) else g) groups)"

definition flowerGroups :: "cardObj list \<Rightarrow> (symbol \<times> int list) list" where
  "flowerGroups cs = foldl push_group [] cs"

definition find_hint_pair :: "(symbol \<times> int list) list \<Rightarrow> int list option" where
  "find_hint_pair groups =
     (case find (\<lambda>g. 2 \<le> length (snd g)) groups of
        None \<Rightarrow> None
      | Some g \<Rightarrow> Some (take 2 (snd g)))"

definition unmatchedCards :: "world \<Rightarrow> cardObj list" where
  "unmatchedCards w =
     filter (\<lambda>c. \<not> matched c \<and> \<not> flipped c) (map (heap w) (cards (gameState w)))"

text \<open>The \<open>forEach\<close> over the pair: one timeout per id, in the order of the pair.\<close>

definition highlight :: "int list \<Rightarrow> world \<Rightarrow> world" where
  "highlight hintPair w = foldl (\<lambda>w0 cardId. setTimer (HintOff cardId) w0) w hintPair"

definition hint :: "world \<Rightarrow> int list option \<times> world" where
  "hint w =
     (if hints (gameState w) \<le> 0 \<or> \<not> gameActive (gameState w) then (None, w)
      else if length (unmatchedCards w) < 2 then (None, w)
      else case find_hint_pair (flowerGroups (unmatchedCards w)) of
             None \<Rightarrow> (None, w)
           | Some hintPair \<Rightarrow>
               (let w1 = highlight hintPair w
                in (Some hintPair,
                    w1\<lparr>gameState := (gameState w1)\<lparr>hints := hints (gameState w1) - 1\<rparr>\<rparr>)))"

subsection \<open>restartGame, quitGame, confirmQuit\<close>

text \<open>The answer to \<open>confirm(...)\<close> is the argument \<open>confirmed\<close>.\<close>

definition restartGame :: "bool \<Rightarrow> (nat \<Rightarrow> nat) \<Rightarrow> world \<Rightarrow> outcome" where
  "restartGame confirmed rand w =
     (if confirmed then startGame rand (currentDifficulty (gameState w)) w else Returned w)"

definition quitGame :: "world \<Rightarrow> world" where
  "quitGame w = w\<lparr>quitModal := True\<rparr>"

definition hideModal :: "world \<Rightarrow> world" where
  "hideModal w = w\<lparr>quitModal := False\<rparr>"

definition confirmQuit :: "world \<Rightarrow> world" where
  "confirmQuit w = showScreen ''main-screen'' (hideModal w)"

subsection \<open>Running a scheduled callback\<close>

text \<open>
  The tick of \<open>startTimer\<close>, the flip-back of \<open>handleCardClick\<close>, the delayed
  \<open>showWinScreen\<close> and the end of a hint's highlight, which only takes a class off a
  card element. A timeout runs once; an interval stays scheduled until it is cleared.
  When a callback runs is up to the clock, which is not modelled: \<open>fire\<close> runs the
  callback of a handle that is still scheduled.
\<close>

definition run_callback :: "callback \<Rightarrow> world \<Rightarrow> outcome" where
  "run_callback cb w =
     (case cb of
        Tick \<Rightarrow> Returned (w\<lparr>gameState := (gameState w)\<lparr>timer := timer (gameState w) + 1\<rparr>\<rparr>)
      | FlipBack firstCard secondCard \<Rightarrow>
          (let w1 = set_flipped secondCard False (set_flipped firstCard False w)
           in Returned (w1\<lparr>gameState := (gameState w1)\<lparr>flippedCards := []\<rparr>\<rparr>))
      | ShowWin \<Rightarrow> showWinScreen w
      | HintOff cardId \<Rightarrow> Returned w)"

definition fire :: "nat \<Rightarrow> world \<Rightarrow> outcome" where
  "fire h w =
     (case map_of (scheduled w) h of
        None \<Rightarrow> Returned w
      | Some Tick \<Rightarrow> run_callback Tick w
      | Some cb \<Rightarrow> run_callback cb (w\<lparr>scheduled := filter (\<lambda>e. fst e \<noteq> h) (scheduled w)\<rparr>))"

subsection \<open>Sessions as sequences of events\<close>

text \<open>
  What the page can do to the world: the buttons, the cards and the timers. An exception
  thrown by a handler ends that handler only; the next event finds the world as the throw
  left it. Every start within one run shuffles with the same draws \<open>rand\<close>.
\<close>

datatype event =
  Start string | Click int | Hint | Restart bool | Quit | ConfirmQuit | Fire nat

definition exec :: "(nat \<Rightarrow> nat) \<Rightarrow> event \<Rightarrow> world \<Rightarrow> outcome" where
  "exec rand ev w =
     (case ev of
        Start difficulty \<Rightarrow> startGame rand difficulty w
      | Click cardId \<Rightarrow> handleCardClick cardId w
      | Hint \<Rightarrow> Returned (snd (hint w))
      | Restart confirmed \<Rightarrow> restartGame confirmed rand w
      | Quit \<Rightarrow> Returned (quitGame w)
      | ConfirmQuit \<Rightarrow> Returned (confirmQuit w)
      | Fire h \<Rightarrow> fire h w)"

fun run :: "(nat \<Rightarrow> nat) \<Rightarrow> event list \<Rightarrow> world \<Rightarrow> world" where
  "run rand [] w = w"
| "run rand (ev # evs) w = run rand evs (world_of (exec rand ev w))"

subsection \<open>The grid\<close>

text \<open>The card objects of the grid, in the order of \<open>gameState.cards\<close>.\<close>

definition deck :: "world \<Rightarrow> cardObj list" where
  "deck w = map (heap w) (cards (gameState w))"

text \<open>What a session shows of itself: the state, the grid, the timers and the screens.\<close>

definition snapshot ::
  "world \<Rightarrow> game_state \<times> cardObj list \<times> (nat \<times> callback) list \<times> string \<times>
     (int \<times> int \<times> int option) option" where
  "snapshot w = (gameState w, deck w, scheduled w, activeScreen w, winScreen w)"

subsection \<open>The hint as the specification words it\<close>

text \<open>
  The cards of a list that carry the symbol \<open>s\<close>, in the order of the list. Applied to
  the cards that are neither matched nor face up, these are the members of the group of
  \<open>s\<close>.
\<close>

definition members :: "cardObj list \<Rightarrow> symbol \<Rightarrow> cardObj list" where
  "members cs s = filter (\<lambda>c. card_value c = s) cs"

text \<open>Two worlds with the same grid: the same card objects, with the ids they had.\<close>

definition same_grid :: "world \<Rightarrow> world \<Rightarrow> bool" where
  "same_grid w' w \<longleftrightarrow>
     cards (gameState w') = cards (gameState w) \<and> (\<forall>r. card_id (heap w' r) = card_id (heap w r))"

subsection \<open>Counting hints in a session\<close>

text \<open>
  The events that replace the session, and the number of calls of \<open>hint\<close> in a sequence
  of events that found a pair.
\<close>

fun starts_session :: "event \<Rightarrow> bool" where
  "starts_session (Start difficulty) = True"
| "starts_session (Restart confirmed) = confirmed"
| "starts_session ev = False"

fun hint_successes :: "(nat \<Rightarrow> nat) \<Rightarrow> event list \<Rightarrow> world \<Rightarrow> nat" where
  "hint_successes rand [] w = 0"
| "hint_successes rand (ev # evs) w =
     (if ev = Hint \<and> fst (hint w) \<noteq> None then 1 else 0) +
     hint_successes rand evs (world_of (exec rand ev w))"

subsection \<open>What changes the active flag\<close>



subsection \<open>Sessions used as examples\<close>

text \<open>
  \<open>draw_zero\<close> is the random source whose every draw is 0: each element is swapped
  with the first. With every draw \<open>rand i = i\<close> (the function \<open>id\<close>) the shuffle
  swaps each element with itself, so on \<open>easy\<close> the card at position \<open>i < 8\<close> and
  the card at position \<open>i + 8\<close> carry the same flower.
\<close>

definition draw_zero :: "nat \<Rightarrow> nat" where
  "draw_zero i = 0"

definition easy_started :: world where
  "easy_started = run id [Start ''easy''] initial_world"

text \<open>
  \<open>perfect_clicks\<close> matches the eight pairs without a miss. \<open>easy_last_pair_open\<close>
  is that session one click before the last pair is matched, \<open>easy_all_matched\<close> the
  session right after the last click, and \<open>easy_ten_ticks\<close> the session after its
  timer (handle 1) has then ticked ten times, the win screen not yet up.
\<close>

definition perfect_clicks :: "event list" where
  "perfect_clicks =
     [Click 0, Click 8, Click 1, Click 9, Click 2, Click 10, Click 3, Click 11,
      Click 4, Click 12, Click 5, Click 13, Click 6, Click 14, Click 7, Click 15]"


definition easy_all_matched :: world where
  "easy_all_matched = run id perfect_clicks easy_started"

definition easy_ten_ticks :: world where
  "easy_ten_ticks = run id (replicate 10 (Fire 1)) easy_all_matched"

text \<open>
  Six pairs of the easy session are matched, then the cards 6 and 7 are turned: they do
  not match and wait to flip back, and the only cards face down are 14 and 15.
\<close>

definition easy_two_face_down :: world where
  "easy_two_face_down = run id (take 12 perfect_clicks @ [Click 6, Click 7]) easy_started"

text \<open>
  The cards 0 and 8 of the easy session are matched and the card 1 is turned: it is face
  up and waits for a second card.
\<close>

definition easy_one_matched_one_up :: world where
  "easy_one_matched_one_up = run id [Click 0, Click 8, Click 1] easy_started"

text \<open>A session started on easy and quit at once.\<close>

definition easy_quit :: world where
  "easy_quit = run id [Quit, ConfirmQuit] easy_started"

text \<open>
  A session on easy in which two cards that do not match are turned, the game is restarted
  before they flip back, and one card of the new grid is turned. The flip-back of the
  first session has the handle 2 and its timer the handle 1; \<open>after_old_flip_back\<close>
  and \<open>after_old_tick\<close> are the world once the one or the other has run.
\<close>

definition restarted_mid_flip :: world where
  "restarted_mid_flip = run id [Click 0, Click 1, Restart True, Click 0] easy_started"

definition after_old_flip_back :: world where
  "after_old_flip_back = world_of (fire 2 restarted_mid_flip)"

definition after_old_tick :: world where
  "after_old_tick = world_of (fire 1 restarted_mid_flip)"

text \<open>What a start with the name \<open>constructor\<close> leaves, from the initial world.\<close>

definition constructor_started :: world where
  "constructor_started = world_of (startGame id ''constructor'' initial_world)"

section \<open>Properties\<close>

subsection \<open>What a call of hint changes\<close>

lemma highlight_frame:
  "gameState (highlight ids w) = gameState w \<and> heap (highlight ids w) = heap w \<and>
   activeScreen (highlight ids w) = activeScreen w \<and> winScreen (highlight ids w) = winScreen w \<and>
   quitModal (highlight ids w) = quitModal w"
  unfolding highlight_def by (induction ids arbitrary: w) (simp_all add: setTimer_def)

lemma highlight_two:
  "highlight [a, b] w =
     w\<lparr>scheduled := scheduled w @ [(nextHandle w, HintOff a), (nextHandle w + 1, HintOff b)],
       nextHandle := nextHandle w + 2\<rparr>"
  by (simp add: highlight_def setTimer_def)

lemma hint_cases:
  "hint w =
     (if hints (gameState w) \<le> 0 \<or> \<not> gameActive (gameState w) \<or> length (unmatchedCards w) < 2
      then (None, w)
      else case find_hint_pair (flowerGroups (unmatchedCards w)) of
             None \<Rightarrow> (None, w)
           | Some p \<Rightarrow>
               (Some p, (highlight p w)\<lparr>gameState := (gameState w)\<lparr>hints := hints (gameState w) - 1\<rparr>\<rparr>))"
  by (auto simp: hint_def Let_def highlight_frame split: option.splits)

lemma hint_Some:
  assumes "fst (hint w) = Some p"
  shows "find_hint_pair (flowerGroups (unmatchedCards w)) = Some p"
    and "snd (hint w) =
           (highlight p w)\<lparr>gameState := (gameState w)\<lparr>hints := hints (gameState w) - 1\<rparr>\<rparr>"
    and "0 < hints (gameState w)"
  using assms by (auto simp: hint_cases split: if_splits option.splits)

lemma hint_None: "fst (hint w) = None \<Longrightarrow> snd (hint w) = w"
  by (auto simp: hint_cases split: if_splits option.splits)

lemma heap_hint: "heap (snd (hint w)) = heap w"
  by (auto simp: hint_cases highlight_frame split: option.splits)

lemma cards_hint: "cards (gameState (snd (hint w))) = cards (gameState w)"
  by (auto simp: hint_cases split: option.splits)

lemma deck_hint: "deck (snd (hint w)) = deck w"
  by (simp add: deck_def heap_hint cards_hint)

lemma hints_hint:
  "hints (gameState (snd (hint w))) =
     hints (gameState w) - (if fst (hint w) \<noteq> None then 1 else 0)"
  by (auto simp: hint_cases split: option.splits)


subsection \<open>shuffleArray\<close>

lemma length_swap: "length (swap i j xs) = length xs"
  by (simp add: swap_def)

lemma mset_swap_list: "i < length xs \<Longrightarrow> j < length xs \<Longrightarrow> mset (swap i j xs) = mset xs"
  unfolding swap_def by (rule mset_swap)

lemma length_shuffle_loop: "length (shuffle_loop rand k xs) = length xs"
  by (induction k arbitrary: xs) (simp_all add: length_swap)

lemma mset_shuffle_loop:
  "\<forall>i. rand i \<le> i \<Longrightarrow> k < length xs \<Longrightarrow> mset (shuffle_loop rand k xs) = mset xs"
proof (induction k arbitrary: xs)
  case 0
  then show ?case by simp
next
  case (Suc k)
  from Suc.prems have j: "rand (Suc k) < length xs"
    by (meson le_less_trans)
  have "mset (shuffle_loop rand k (swap (Suc k) (rand (Suc k)) xs)) =
        mset (swap (Suc k) (rand (Suc k)) xs)"
    using Suc.prems by (intro Suc.IH) (simp_all add: length_swap)
  with Suc.prems j show ?case
    by (simp add: mset_swap_list)
qed

lemma mset_shuffle_whole:
  "\<forall>i. rand i \<le> i \<Longrightarrow> mset (shuffle_loop rand (length xs - 1) xs) = mset xs"
  by (cases "xs = []") (simp_all add: mset_shuffle_loop)

text \<open>
  Claim C9, as the code has it. \<open>shuffleArray\<close> works on the array it is given, not on a
  copy: with draws \<open>rand i \<le> i\<close> it returns the reference it received, the array behind
  that reference holds a permutation of what it held before (the same multiset of
  elements), and no other array changes.
\<close>

theorem shuffleArray_permutes_in_place:
  assumes "\<forall>i. rand i \<le> i"
  shows "fst (shuffleArray rand array store) = array \<and>
         mset (snd (shuffleArray rand array store) array) = mset (store array) \<and>
         (\<forall>other. other \<noteq> array \<longrightarrow> snd (shuffleArray rand array store) other = store other)"
  using assms mset_shuffle_whole [of rand "store array"] by (simp add: shuffleArray_def)

text \<open>
  The theorem at the array \<open>[1, 2, 3]\<close> with every draw \<open>0\<close>: the array becomes
  \<open>[2, 3, 1]\<close>.
\<close>

theorem shuffleArray_permutes_in_place_witness:
  "(\<forall>i. draw_zero i \<le> i) \<and>
   fst (shuffleArray draw_zero 0 (single_array [1, 2, 3 :: int])) = 0 \<and>
   snd (shuffleArray draw_zero 0 (single_array [1, 2, 3 :: int])) 0 = [2, 3, 1] \<and>
   mset (snd (shuffleArray draw_zero 0 (single_array [1, 2, 3 :: int])) 0) = mset [1, 2, 3] \<and>
   snd (shuffleArray draw_zero 0 (single_array [1, 2, 3 :: int])) 1 = []"
proof -
  have h: "\<forall>i. draw_zero i \<le> i" by (simp add: draw_zero_def)
  have v: "snd (shuffleArray draw_zero 0 (single_array [1, 2, 3 :: int])) 0 = [2, 3, 1]"
    by (simp add: shuffleArray_def single_array_def draw_zero_def swap_def numeral_2_eq_2)
  from shuffleArray_permutes_in_place [OF h, of 0 "single_array [1, 2, 3 :: int]"] h v
  show ?thesis by (simp add: single_array_def)
qed

text \<open>
  Claim C9 as stated fails: the input array is not left as it was. After the call the
  array behind the reference passed in differs from its content before the call.
\<close>

theorem shuffleArray_mutates_input:
  "snd (shuffleArray draw_zero 0 (single_array [1, 2, 3 :: int])) 0
     \<noteq> single_array [1, 2, 3 :: int] 0"
  by (simp add: shuffleArray_def single_array_def draw_zero_def swap_def numeral_2_eq_2)

subsection \<open>The deck built by startGame\<close>


lemma length_flowers: "length flowers = 15"
  by (simp add: flowers_def)

lemma distinct_flowers: "distinct flowers"
  by (simp add: flowers_def)

lemma preset_pairs:
  "difficulties difficulty = Preset c \<Longrightarrow> pairs c = 8 \<or> pairs c = 10 \<or> pairs c = 15"
  by (auto simp: difficulties_def split: if_splits)

lemma createCards_preset:
  "createCards rand (Preset c) w =
     Returned
       (w\<lparr>heap := (\<lambda>r. if nextRef w \<le> r \<and> r < nextRef w + 2 * min (pairs c) 15
                      then new_card (shuffle_loop rand (2 * min (pairs c) 15 - 1)
                             (take (pairs c) flowers @ take (pairs c) flowers)) (r - nextRef w)
                      else heap w r),
          nextRef := nextRef w + 2 * min (pairs c) 15,
          gameState := (gameState w)\<lparr>cards := map (\<lambda>i. nextRef w + i) [0..<2 * min (pairs c) 15]\<rparr>\<rparr>)"
  by (simp add: createCards_def shuffleArray_def single_array_def Let_def length_shuffle_loop
      length_flowers mult_2 min.commute cong del: if_weak_cong)

lemma deck_createCards:
  "deck (world_of (createCards rand (Preset c) w)) =
     map (new_card (shuffle_loop rand (2 * min (pairs c) 15 - 1)
            (take (pairs c) flowers @ take (pairs c) flowers))) [0..<2 * min (pairs c) 15]"
  by (simp add: createCards_preset world_of_def deck_def)

lemma startGame_preset:
  assumes "difficulties difficulty = Preset c"
  shows "\<exists>w'. startGame rand difficulty w = Returned w' \<and>
           deck w' = deck (world_of (createCards rand (Preset c) (w\<lparr>gameState := fresh_game_state difficulty\<rparr>))) \<and>
           cards (gameState w') = map (\<lambda>i. nextRef w + i) [0..<2 * min (pairs c) 15]"
  using assms
  by (simp add: startGame_def createCards_preset and_then_def updateScore_def fresh_game_state_def
      showScreen_def startTimer_def setTimer_def clearInterval_def world_of_def deck_def Let_def)

lemma deck_values:
  assumes "m \<le> 15" and "\<forall>i. rand i \<le> i"
  shows "mset (map card_value (map (new_card (shuffle_loop rand (2 * m - 1)
            (take m flowers @ take m flowers))) [0..<2 * m])) =
         mset (take m flowers) + mset (take m flowers)"
proof -
  let ?xs = "take m flowers @ take m flowers"
  let ?ys = "shuffle_loop rand (2 * m - 1) ?xs"
  from assms(1) have len: "length ?xs = 2 * m"
    by (simp add: length_flowers)
  then have leny: "length ?ys = 2 * m"
    by (simp add: length_shuffle_loop)
  have "map card_value (map (new_card ?ys) [0..<2 * m]) = map (\<lambda>i. ?ys ! i) [0..<length ?ys]"
    using leny by (simp add: new_card_def comp_def)
  also have "\<dots> = ?ys"
    by (rule map_nth)
  finally have "mset (map card_value (map (new_card ?ys) [0..<2 * m])) = mset ?ys"
    by simp
  also have "\<dots> = mset ?xs"
    using mset_shuffle_whole [OF assms(2), of ?xs] unfolding len by simp
  finally show ?thesis by simp
qed

lemma deck_ids:
  "map card_id (map (new_card vs) [0..<n]) = map int [0..<n]"
  by (simp add: new_card_def comp_def)

text \<open>
  Claim C7. For a preset (the names for which \<open>difficulties\<close> yields a \<open>Preset\<close>)
  and draws \<open>rand i \<le> i\<close>, \<open>startGame\<close> returns, and the grid then holds
  \<open>2 * pairs\<close> cards whose ids are their positions \<open>0, ..., 2 * pairs - 1\<close>, each a
  card object of its own. The symbols on them are the first \<open>pairs\<close> flowers, which are
  \<open>pairs\<close> distinct symbols, each on exactly two cards and no other symbol on any.
\<close>

theorem startGame_deck:
  assumes "difficulties difficulty = Preset c" and "\<forall>i. rand i \<le> i"
  shows "\<exists>w'. startGame rand difficulty w = Returned w' \<and>
           length (deck w') = 2 * pairs c \<and>
           map card_id (deck w') = map int [0..<2 * pairs c] \<and>
           distinct (cards (gameState w')) \<and>
           distinct (take (pairs c) flowers) \<and>
           length (take (pairs c) flowers) = pairs c \<and>
           mset (map card_value (deck w')) =
             mset (take (pairs c) flowers) + mset (take (pairs c) flowers) \<and>
           card (set (map card_value (deck w'))) = pairs c \<and>
           (\<forall>s. count_list (map card_value (deck w')) s =
                  (if s \<in> set (take (pairs c) flowers) then 2 else 0))"
proof -
  from assms(1) have m: "pairs c \<le> 15" "min (pairs c) 15 = pairs c"
    using preset_pairs [OF assms(1)] by auto
  let ?sel = "take (pairs c) flowers"
  from startGame_preset [OF assms(1), of rand w] obtain w' where
    ret: "startGame rand difficulty w = Returned w'" and
    dk: "deck w' = map (new_card (shuffle_loop rand (2 * pairs c - 1) (?sel @ ?sel))) [0..<2 * pairs c]" and
    cs: "cards (gameState w') = map (\<lambda>i. nextRef w + i) [0..<2 * pairs c]"
    by (auto simp: deck_createCards m)
  have len: "length (deck w') = 2 * pairs c"
    by (simp add: dk)
  have ids: "map card_id (deck w') = map int [0..<2 * pairs c]"
    unfolding dk by (rule deck_ids)
  have dc: "distinct (cards (gameState w'))"
    by (simp add: cs distinct_map inj_on_def)
  have ds: "distinct ?sel"
    by (simp add: distinct_flowers)
  have ls: "length ?sel = pairs c"
    using m by (simp add: length_flowers)
  have ms: "mset (map card_value (deck w')) = mset ?sel + mset ?sel"
    unfolding dk by (rule deck_values [OF m(1) assms(2)])
  have "set (map card_value (deck w')) = set ?sel"
    using arg_cong [OF ms, of set_mset] by simp
  then have cd: "card (set (map card_value (deck w'))) = pairs c"
    using ds ls by (simp add: distinct_card)
  have cnt: "count_list (map card_value (deck w')) s = (if s \<in> set ?sel then 2 else 0)" for s
  proof -
    have "count_list (map card_value (deck w')) s = count (mset (map card_value (deck w'))) s"
      by (rule count_mset [symmetric])
    also have "\<dots> = count (mset ?sel) s + count (mset ?sel) s"
      unfolding ms by simp
    also have "\<dots> = (if s \<in> set ?sel then 2 else 0)"
      using ds by (simp add: distinct_count_atmost_1 count_mset_0_iff)
    finally show ?thesis .
  qed
  from ret len ids dc ds ls ms cd cnt show ?thesis
    by blast
qed

text \<open>The theorem at \<open>hard\<close> from the initial world, every draw \<open>0\<close>.\<close>

theorem startGame_deck_witness:
  "difficulties ''hard'' = Preset \<lparr>rows = 5, cols = 6, pairs = 15\<rparr> \<and>
   (\<forall>i. draw_zero i \<le> i) \<and>
   length (deck (world_of (startGame draw_zero ''hard'' initial_world))) = 30 \<and>
   map card_id (deck (world_of (startGame draw_zero ''hard'' initial_world))) = map int [0..<30] \<and>
   card (set (map card_value (deck (world_of (startGame draw_zero ''hard'' initial_world))))) = 15 \<and>
   count_list (map card_value (deck (world_of (startGame draw_zero ''hard'' initial_world))))
     [0x1F38B] = 2"
proof -
  have d: "difficulties ''hard'' = Preset \<lparr>rows = 5, cols = 6, pairs = 15\<rparr>"
    by (simp add: difficulties_def)
  have h: "\<forall>i. draw_zero i \<le> i"
    by (simp add: draw_zero_def)
  have f: "[0x1F38B] \<in> set (take 15 flowers)"
    by (simp add: flowers_def)
  from startGame_deck [OF d h, of initial_world] obtain w' where
    "startGame draw_zero ''hard'' initial_world = Returned w'"
    "length (deck w') = 30" "map card_id (deck w') = map int [0..<30]"
    "card (set (map card_value (deck w'))) = 15"
    "\<forall>s. count_list (map card_value (deck w')) s = (if s \<in> set (take 15 flowers) then 2 else 0)"
    by auto
  with d f h show ?thesis
    by (simp add: world_of_def)
qed

subsection \<open>The score on the win screen\<close>

lemma preset_cases:
  "difficulties difficulty = Preset c \<Longrightarrow>
     (difficulty = ''easy'' \<and> c = \<lparr>rows = 4, cols = 4, pairs = 8\<rparr>) \<or>
     (difficulty = ''medium'' \<and> c = \<lparr>rows = 4, cols = 5, pairs = 10\<rparr>) \<or>
     (difficulty = ''hard'' \<and> c = \<lparr>rows = 5, cols = 6, pairs = 15\<rparr>)"
  by (auto simp: difficulties_def split: if_splits)

lemma preset_bonus:
  assumes "difficulties difficulty = Preset c"
  shows "difficultyBonus difficulty =
           Some (if difficulty = ''easy'' then 100 else if difficulty = ''medium'' then 200 else 300)"
  using preset_cases [OF assms] by (auto simp: difficultyBonus_def)

lemma gameState_clearInterval: "gameState (clearInterval h w) = gameState w"
  by (cases h) (simp_all add: clearInterval_def)

lemma showWinScreen_preset:
  assumes "difficulties (currentDifficulty (gameState w)) = Preset c"
  shows "showWinScreen w =
     Returned (showScreen ''win-screen''
       ((clearInterval (timerInterval (gameState w)) w)
          \<lparr>gameState := (gameState w)\<lparr>gameActive := False\<rparr>,
           winScreen := Some (timer (gameState w), moveCount (gameState w),
             Some (max 0 (300 - timer (gameState w)) +
                   max 0 (int (pairs c) * 10 - moveCount (gameState w)) +
                   (if currentDifficulty (gameState w) = ''easy'' then 100
                    else if currentDifficulty (gameState w) = ''medium'' then 200 else 300)))\<rparr>))"
  by (simp add: showWinScreen_def Let_def gameState_clearInterval assms preset_bonus [OF assms])

lemma winScreen_showScreen: "winScreen (showScreen s w) = winScreen w"
  by (simp add: showScreen_def Let_def clearInterval_def split: option.splits)

text \<open>
  Claim C6. For a session on a preset, \<open>showWinScreen\<close> returns and writes to the win
  screen the elapsed seconds, the move count and the score
  \<open>max(0, 300 - timer) + max(0, pairs * 10 - moveCount) + bonus\<close>, the bonus being 100 on
  easy, 200 on medium and 300 on hard (the only presets), in integers. On easy with 10
  seconds and 8 moves the score is 462.
\<close>

theorem showWinScreen_score:
  assumes "difficulties (currentDifficulty (gameState w)) = Preset c"
  shows "(\<exists>w'. showWinScreen w = Returned w' \<and>
            winScreen w' = Some (timer (gameState w), moveCount (gameState w),
              Some (max 0 (300 - timer (gameState w)) +
                    max 0 (int (pairs c) * 10 - moveCount (gameState w)) +
                    (if currentDifficulty (gameState w) = ''easy'' then 100
                     else if currentDifficulty (gameState w) = ''medium'' then 200 else 300)))) \<and>
         (currentDifficulty (gameState w) = ''easy'' \<and> timer (gameState w) = 10 \<and>
          moveCount (gameState w) = 8 \<longrightarrow>
            (\<exists>w'. showWinScreen w = Returned w' \<and> winScreen w' = Some (10, 8, Some 462)))"
proof -
  have "currentDifficulty (gameState w) = ''easy'' \<Longrightarrow> pairs c = 8"
    using assms by (auto simp: difficulties_def)
  then show ?thesis
    by (auto simp: showWinScreen_preset [OF assms] winScreen_showScreen)
qed

lemma snapshot_easy_ten_ticks:
  "snapshot easy_ten_ticks =
     (\<lparr>cards = [0, 1, 2, 3, 4, 5, 6, 7, 8, 9, 10, 11, 12, 13, 14, 15],
       flippedCards = [], matchedPairs = 8, moveCount = 8, gameActive = True,
       timer = 10, timerInterval = Some 1, currentDifficulty = ''easy'', hints = 3\<rparr>,
      map (\<lambda>i. \<lparr>card_id = int i, card_value = (take 8 flowers @ take 8 flowers) ! i,
                 flipped = True, matched = True\<rparr>) [0..<16],
      [(1, Tick), (2, ShowWin)], ''game-screen'', None)"
  by code_simp

lemma ten_ticks_facts:
  "currentDifficulty (gameState easy_ten_ticks) = ''easy''"
  "timer (gameState easy_ten_ticks) = 10"
  "moveCount (gameState easy_ten_ticks) = 8"
  using snapshot_easy_ten_ticks by (simp_all add: snapshot_def)

text \<open>
  The theorem at the session that starts easy, matches the eight pairs in eight moves and
  has seen ten ticks when \<open>showWinScreen\<close> runs.
\<close>

theorem showWinScreen_score_witness:
  "difficulties (currentDifficulty (gameState easy_ten_ticks))
     = Preset \<lparr>rows = 4, cols = 4, pairs = 8\<rparr> \<and>
   currentDifficulty (gameState easy_ten_ticks) = ''easy'' \<and>
   timer (gameState easy_ten_ticks) = 10 \<and>
   moveCount (gameState easy_ten_ticks) = 8 \<and>
   winScreen (world_of (showWinScreen easy_ten_ticks)) = Some (10, 8, Some 462)"
proof -
  have d: "difficulties (currentDifficulty (gameState easy_ten_ticks))
             = Preset \<lparr>rows = 4, cols = 4, pairs = 8\<rparr>"
    by (simp add: ten_ticks_facts difficulties_def)
  from showWinScreen_score [OF d] ten_ticks_facts obtain w' where
    "showWinScreen easy_ten_ticks = Returned w'" "winScreen w' = Some (10, 8, Some 462)"
    by blast
  with d ten_ticks_facts show ?thesis
    by (simp add: world_of_def)
qed

subsection \<open>Quitting\<close>

lemma confirmQuit_quitGame:
  "confirmQuit (quitGame w) =
     w\<lparr>gameState := (gameState w)\<lparr>timerInterval := None\<rparr>,
       scheduled := (case timerInterval (gameState w) of
                       None \<Rightarrow> scheduled w
                     | Some h \<Rightarrow> filter (\<lambda>e. fst e \<noteq> h) (scheduled w)),
       activeScreen := ''main-screen'', quitModal := False\<rparr>"
  by (cases "timerInterval (gameState w)")
     (simp_all add: confirmQuit_def quitGame_def hideModal_def showScreen_def clearInterval_def
        Let_def)

text \<open>
  Claim C3, as the code has it. Quitting is \<open>quitGame\<close> (the modal comes up) and then
  \<open>confirmQuit\<close>. \<open>quitGame\<close> touches neither the state nor the timers.
  \<open>confirmQuit\<close> stops the timer of \<open>gameState.timerInterval\<close> (the interval is
  cleared and the field set to \<open>null\<close>) and leaves everything else of the state as it
  was: the cards, the matched pairs, the move count, and also \<open>gameActive\<close>, which is
  not set to false.
\<close>

theorem confirmQuit_stops_timer_only:
  "gameState (quitGame w) = gameState w \<and> scheduled (quitGame w) = scheduled w \<and>
   heap (quitGame w) = heap w \<and>
   gameState (confirmQuit (quitGame w)) = (gameState w)\<lparr>timerInterval := None\<rparr> \<and>
   gameActive (gameState (confirmQuit (quitGame w))) = gameActive (gameState w) \<and>
   timerInterval (gameState (confirmQuit (quitGame w))) = None \<and>
   scheduled (confirmQuit (quitGame w)) =
     (case timerInterval (gameState w) of
        None \<Rightarrow> scheduled w
      | Some h \<Rightarrow> filter (\<lambda>e. fst e \<noteq> h) (scheduled w)) \<and>
   cards (gameState (confirmQuit (quitGame w))) = cards (gameState w) \<and>
   heap (confirmQuit (quitGame w)) = heap w \<and>
   deck (confirmQuit (quitGame w)) = deck w \<and>
   matchedPairs (gameState (confirmQuit (quitGame w))) = matchedPairs (gameState w) \<and>
   moveCount (gameState (confirmQuit (quitGame w))) = moveCount (gameState w)"
  by (simp add: confirmQuit_quitGame deck_def) (simp add: quitGame_def)

lemma snapshot_easy_quit:
  "snapshot easy_quit =
     (\<lparr>cards = [0, 1, 2, 3, 4, 5, 6, 7, 8, 9, 10, 11, 12, 13, 14, 15],
       flippedCards = [], matchedPairs = 0, moveCount = 0, gameActive = True,
       timer = 0, timerInterval = None, currentDifficulty = ''easy'', hints = 3\<rparr>,
      map (\<lambda>i. \<lparr>card_id = int i, card_value = (take 8 flowers @ take 8 flowers) ! i,
                 flipped = False, matched = False\<rparr>) [0..<16],
      [], ''main-screen'', None)"
  by code_simp

text \<open>
  Claim C3 as stated fails: after a session is started on easy and then quit, the timer is
  stopped but \<open>gameActive\<close> is still true.
\<close>

theorem quit_leaves_session_active:
  "gameActive (gameState easy_quit) \<and> timerInterval (gameState easy_quit) = None \<and>
   scheduled easy_quit = []"
  using snapshot_easy_quit by (simp add: snapshot_def)

subsection \<open>Card ids that are not positions of the grid\<close>

lemma handleCardClick_undefined_card:
  assumes "card_at (cards (gameState w)) cardId = None"
  shows "handleCardClick cardId w =
           (if gameActive (gameState w) then Threw TypeError w else Returned w)"
  using assms by (simp add: handleCardClick_def)

lemma card_at_out_of_range:
  "cardId < 0 \<or> int (length cs) \<le> cardId \<Longrightarrow> card_at cs cardId = None"
  by (auto simp: card_at_def)

text \<open>
  Claim C4, as the code has it. \<open>handleCardClick\<close> does not check the id. While the
  session is active, an id that is not a position of the grid makes
  \<open>gameState.cards[cardId]\<close> undefined and the read of \<open>card.flipped\<close> throws a
  TypeError; this is before the first write, so the world is as it was. While the session
  is inactive the call returns at once and changes nothing.
\<close>

theorem handleCardClick_out_of_range:
  assumes "cardId < 0 \<or> int (length (cards (gameState w))) \<le> cardId"
  shows "handleCardClick cardId w =
           (if gameActive (gameState w) then Threw TypeError w else Returned w)"
  by (rule handleCardClick_undefined_card) (rule card_at_out_of_range [OF assms])

lemma snapshot_easy_started:
  "snapshot easy_started =
     (\<lparr>cards = [0, 1, 2, 3, 4, 5, 6, 7, 8, 9, 10, 11, 12, 13, 14, 15],
       flippedCards = [], matchedPairs = 0, moveCount = 0, gameActive = True,
       timer = 0, timerInterval = Some 1, currentDifficulty = ''easy'', hints = 3\<rparr>,
      map (\<lambda>i. \<lparr>card_id = int i, card_value = (take 8 flowers @ take 8 flowers) ! i,
                 flipped = False, matched = False\<rparr>) [0..<16],
      [(1, Tick)], ''game-screen'', None)"
  by code_simp

lemma easy_started_facts:
  "gameActive (gameState easy_started)"
  "length (cards (gameState easy_started)) = 16"
  "hints (gameState easy_started) = 3"
  using snapshot_easy_started by (simp_all add: snapshot_def)

text \<open>The theorem at a session just started on easy (16 cards) and the id 16.\<close>

theorem handleCardClick_out_of_range_witness:
  "(16 < (0::int) \<or> int (length (cards (gameState easy_started))) \<le> 16) \<and>
   gameActive (gameState easy_started) \<and>
   handleCardClick 16 easy_started = Threw TypeError easy_started"
proof -
  have h: "16 < (0::int) \<or> int (length (cards (gameState easy_started))) \<le> 16"
    by (simp add: easy_started_facts)
  from handleCardClick_out_of_range [OF h] h easy_started_facts show ?thesis
    by simp
qed

text \<open>
  Claim C4 as stated fails: in a session just started on easy, a click on the id \<open>-1\<close>
  throws. It is neither a no-op nor a failure the script raises by name.
\<close>

theorem handleCardClick_throws_on_bad_id:
  "handleCardClick (- 1) easy_started = Threw TypeError easy_started"
  using handleCardClick_undefined_card [of easy_started "- 1"] easy_started_facts
  by (simp add: card_at_def)

subsection \<open>Difficulty names that are not presets\<close>

lemma startGame_undefined:
  assumes "difficulties difficulty = Undefined"
  shows "startGame rand difficulty w = Threw TypeError (w\<lparr>gameState := fresh_game_state difficulty\<rparr>)"
  using assms by (simp add: startGame_def createCards_def and_then_def Let_def)

lemma difficulties_undefined:
  "difficulty \<notin> {''easy'', ''medium'', ''hard''} \<Longrightarrow>
   difficulty \<notin> set object_prototype_members \<Longrightarrow> difficulties difficulty = Undefined"
  by (simp add: difficulties_def)

text \<open>
  Claim C5, as the code has it. \<open>startGame\<close> does not check the name. For a name that is
  neither a preset nor the name of a member every object inherits, the configuration is
  undefined and \<open>createCards\<close> throws a TypeError at \<open>config.cols\<close>. By then the state
  has been replaced by a fresh one for that name (active, no cards); no timer has been
  started and nothing else of the world has changed.
\<close>

theorem startGame_unknown_difficulty:
  assumes "difficulty \<notin> {''easy'', ''medium'', ''hard''}"
    and "difficulty \<notin> set object_prototype_members"
  shows "startGame rand difficulty w =
           Threw TypeError (w\<lparr>gameState := fresh_game_state difficulty\<rparr>) \<and>
         gameActive (fresh_game_state difficulty) \<and>
         cards (fresh_game_state difficulty) = [] \<and>
         timerInterval (fresh_game_state difficulty) = None"
  using startGame_undefined [OF difficulties_undefined [OF assms]]
  by (simp add: fresh_game_state_def)

text \<open>The theorem at the name \<open>expert\<close>, from the initial world.\<close>

theorem startGame_unknown_difficulty_witness:
  "''expert'' \<notin> {''easy'', ''medium'', ''hard''} \<and>
   ''expert'' \<notin> set object_prototype_members \<and>
   startGame id ''expert'' initial_world =
     Threw TypeError (initial_world\<lparr>gameState := fresh_game_state ''expert''\<rparr>)"
proof -
  have a: "''expert'' \<notin> {''easy'', ''medium'', ''hard''}"
    by simp
  have b: "''expert'' \<notin> set object_prototype_members"
    by (simp add: object_prototype_members_def)
  from startGame_unknown_difficulty [OF a b] a b show ?thesis
    by simp
qed

text \<open>
  Claim C5 as stated fails. The name \<open>constructor\<close> is no preset, yet
  \<open>startGame\<close> returns: the lookup finds the member every object inherits, whose
  \<open>pairs\<close> is undefined, so all fifteen flowers are taken and the session runs with 30
  cards. The name \<open>expert\<close> does make the call fail, with a TypeError.
\<close>

theorem startGame_non_preset_outcomes:
  "startGame id ''constructor'' initial_world = Returned constructor_started \<and>
   gameActive (gameState constructor_started) \<and>
   length (cards (gameState constructor_started)) = 30 \<and>
   timerInterval (gameState constructor_started) = Some 1 \<and>
   startGame id ''expert'' initial_world =
     Threw TypeError (initial_world\<lparr>gameState := fresh_game_state ''expert''\<rparr>)"
proof -
  have "difficulties ''constructor'' = Inherited"
    by (simp add: difficulties_def object_prototype_members_def)
  then have "startGame id ''constructor'' initial_world = Returned constructor_started"
    by (simp add: constructor_started_def startGame_def createCards_def updateScore_def
        fresh_game_state_def and_then_def world_of_def Let_def)
  moreover have "gameActive (gameState constructor_started)"
    "length (cards (gameState constructor_started)) = 30"
    "timerInterval (gameState constructor_started) = Some 1"
    by code_simp+
  moreover have "difficulties ''expert'' = Undefined"
    by (simp add: difficulties_def object_prototype_members_def)
  ultimately show ?thesis
    by (simp add: startGame_undefined)
qed

subsection \<open>The last pair and the win screen\<close>

lemmas click_defs = handleCardClick_def resolve_pair_def updateScore_def and_then_def
  world_of_def Let_def set_flipped_def set_matched_def setTimer_def




















subsection \<open>Callbacks of a session that has been replaced\<close>

lemma snapshot_restarted_mid_flip:
  "snapshot restarted_mid_flip =
     (\<lparr>cards = [16, 17, 18, 19, 20, 21, 22, 23, 24, 25, 26, 27, 28, 29, 30, 31],
       flippedCards = [0], matchedPairs = 0, moveCount = 0, gameActive = True,
       timer = 0, timerInterval = Some 3, currentDifficulty = ''easy'', hints = 3\<rparr>,
      map (\<lambda>i. \<lparr>card_id = int i, card_value = (take 8 flowers @ take 8 flowers) ! i,
                 flipped = (i = 0), matched = False\<rparr>) [0..<16],
      [(1, Tick), (2, FlipBack 0 1), (3, Tick)], ''game-screen'', None)"
  by code_simp

lemma snapshot_after_old_flip_back:
  "snapshot after_old_flip_back =
     (\<lparr>cards = [16, 17, 18, 19, 20, 21, 22, 23, 24, 25, 26, 27, 28, 29, 30, 31],
       flippedCards = [], matchedPairs = 0, moveCount = 0, gameActive = True,
       timer = 0, timerInterval = Some 3, currentDifficulty = ''easy'', hints = 3\<rparr>,
      map (\<lambda>i. \<lparr>card_id = int i, card_value = (take 8 flowers @ take 8 flowers) ! i,
                 flipped = (i = 0), matched = False\<rparr>) [0..<16],
      [(1, Tick), (3, Tick)], ''game-screen'', None)"
  by code_simp

lemma snapshot_after_old_tick:
  "snapshot after_old_tick =
     (\<lparr>cards = [16, 17, 18, 19, 20, 21, 22, 23, 24, 25, 26, 27, 28, 29, 30, 31],
       flippedCards = [0], matchedPairs = 0, moveCount = 0, gameActive = True,
       timer = 1, timerInterval = Some 3, currentDifficulty = ''easy'', hints = 3\<rparr>,
      map (\<lambda>i. \<lparr>card_id = int i, card_value = (take 8 flowers @ take 8 flowers) ! i,
                 flipped = (i = 0), matched = False\<rparr>) [0..<16],
      [(1, Tick), (2, FlipBack 0 1), (3, Tick)], ''game-screen'', None)"
  by code_simp

text \<open>
  Claim C1 does not hold of the code. After the restart the timer of the first session
  (handle 1) and its flip-back (handle 2) are still scheduled beside the new timer
  (handle 3). When the old flip-back runs it leaves the cards of the new grid alone (it
  holds the card objects of the old grid) but it empties \<open>flippedCards\<close> of the new
  session, whose first card stays face up. When the old timer ticks it adds a second to
  the \<open>timer\<close> of the new session.
\<close>

theorem stale_callbacks_reach_new_session:
  "scheduled restarted_mid_flip = [(1, Tick), (2, FlipBack 0 1), (3, Tick)] \<and>
   timerInterval (gameState restarted_mid_flip) = Some 3 \<and>
   flippedCards (gameState restarted_mid_flip) = [0] \<and>
   flipped (deck restarted_mid_flip ! 0) \<and>
   flippedCards (gameState after_old_flip_back) = [] \<and>
   deck after_old_flip_back = deck restarted_mid_flip \<and>
   flipped (deck after_old_flip_back ! 0) \<and>
   timer (gameState restarted_mid_flip) = 0 \<and>
   timer (gameState after_old_tick) = 1"
  using snapshot_restarted_mid_flip snapshot_after_old_flip_back snapshot_after_old_tick
  by (simp add: snapshot_def)

subsection \<open>The pair a hint picks\<close>

lemma find_of_map: "find P (map f xs) = map_option f (find (P \<circ> f) xs)"
  by (induction xs) simp_all

lemma find_snoc:
  "find Q (xs @ [x]) = (case find Q xs of None \<Rightarrow> (if Q x then Some x else None) | Some y \<Rightarrow> Some y)"
  by (induction xs) simp_all

lemma find_first_occurrences: "find Q (rev (remdups (rev xs))) = find Q xs"
proof (induction xs rule: rev_induct)
  case Nil
  then show ?case by simp
next
  case (snoc x xs)
  show ?case
  proof (cases "x \<in> set xs")
    case True
    then have "find Q xs = None \<Longrightarrow> \<not> Q x"
      by (auto simp: find_None_iff)
    with True snoc show ?thesis
      by (cases "find Q xs") (simp_all add: find_snoc)
  next
    case False
    with snoc show ?thesis
      by (simp add: find_snoc)
  qed
qed

lemma members_snoc:
  "members (cs @ [c]) s = members cs s @ (if card_value c = s then [c] else [])"
  by (simp add: members_def)

lemma flowerGroups_snoc: "flowerGroups (cs @ [c]) = push_group (flowerGroups cs) c"
  by (simp add: flowerGroups_def)

lemma map_of_keyed:
  "map_of (map (\<lambda>s. (s, f s)) ks) k = (if k \<in> set ks then Some (f k) else None)"
  by (induction ks) auto

lemma flowerGroups_eq:
  "flowerGroups cs =
     map (\<lambda>s. (s, map card_id (members cs s))) (rev (remdups (rev (map card_value cs))))"
proof (induction cs rule: rev_induct)
  case Nil
  then show ?case by (simp add: flowerGroups_def)
next
  case (snoc c cs)
  let ?ks = "rev (remdups (rev (map card_value cs)))"
  have set_ks: "set ?ks = card_value ` set cs"
    by simp
  show ?case
  proof (cases "card_value c \<in> card_value ` set cs")
    case True
    then have "push_group (flowerGroups cs) c =
        map (\<lambda>g. if fst g = card_value c then (fst g, snd g @ [card_id c]) else g)
          (map (\<lambda>s. (s, map card_id (members cs s))) ?ks)"
      unfolding push_group_def snoc.IH map_of_keyed set_ks by simp
    also have "\<dots> = map (\<lambda>s. (s, map card_id (members (cs @ [c]) s))) ?ks"
      by (simp add: members_snoc)
    finally show ?thesis
      using True by (simp add: flowerGroups_snoc)
  next
    case False
    then have "\<forall>x\<in>set cs. card_value x \<noteq> card_value c"
      by (metis image_eqI)
    then have none: "members cs (card_value c) = []"
      by (simp add: members_def filter_empty_conv)
    from False have "push_group (flowerGroups cs) c =
        map (\<lambda>s. (s, map card_id (members cs s))) ?ks @ [(card_value c, [card_id c])]"
      unfolding push_group_def snoc.IH map_of_keyed set_ks by simp
    also have "map (\<lambda>s. (s, map card_id (members cs s))) ?ks =
               map (\<lambda>s. (s, map card_id (members (cs @ [c]) s))) ?ks"
      using False by (auto simp: members_snoc)
    finally show ?thesis
      using False none by (simp add: flowerGroups_snoc members_snoc)
  qed
qed

text \<open>
  The pair found through the dictionary is the pair of the first card, in the order of the
  list, whose symbol is on two cards or more: the first two cards with that symbol.
\<close>

lemma find_hint_pair_flowerGroups:
  "find_hint_pair (flowerGroups cs) =
     (case find (\<lambda>c. 2 \<le> length (members cs (card_value c))) cs of
        None \<Rightarrow> None
      | Some c \<Rightarrow> Some (take 2 (map card_id (members cs (card_value c)))))"
proof -
  let ?Q = "\<lambda>s. 2 \<le> length (members cs s)"
  have "find (\<lambda>g. 2 \<le> length (snd g)) (flowerGroups cs) =
        map_option (\<lambda>s. (s, map card_id (members cs s)))
          (find ?Q (rev (remdups (rev (map card_value cs)))))"
    by (simp add: flowerGroups_eq find_of_map comp_def)
  also have "find ?Q (rev (remdups (rev (map card_value cs)))) = find ?Q (map card_value cs)"
    by (rule find_first_occurrences)
  also have "\<dots> = map_option card_value (find (\<lambda>c. ?Q (card_value c)) cs)"
    by (simp add: find_of_map comp_def)
  finally show ?thesis
    by (simp add: find_hint_pair_def split: option.splits)
qed

lemma unmatchedCards_deck:
  "unmatchedCards w = filter (\<lambda>c. \<not> matched c \<and> \<not> flipped c) (deck w)"
  by (simp add: unmatchedCards_def deck_def)

lemma unmatchedCards_sorted:
  assumes "map card_id (deck w) = map int [0..<length (deck w)]"
  shows "sorted_wrt (\<lambda>x y. card_id x < card_id y) (unmatchedCards w)"
proof -
  have "sorted_wrt (<) (map int [0..<length (deck w)])"
    by (simp add: sorted_wrt_map)
  then have "sorted_wrt (\<lambda>x y. card_id x < card_id y) (deck w)"
    unfolding assms [symmetric] by (simp add: sorted_wrt_map)
  then show ?thesis
    unfolding unmatchedCards_deck by (rule sorted_wrt_filter)
qed

lemma hint_pair_props:
  assumes srt: "sorted_wrt (\<lambda>x y. card_id x < card_id y) cs"
    and found: "find_hint_pair (flowerGroups cs) = Some p"
  shows "\<exists>a b. p = [card_id a, card_id b] \<and> a \<in> set cs \<and> b \<in> set cs \<and>
           card_value a = card_value b \<and> card_id a < card_id b \<and>
           (\<forall>c\<in>set cs. card_value c = card_value a \<longrightarrow>
              card_id c = card_id a \<or> card_id c = card_id b \<or> card_id b < card_id c) \<and>
           (\<forall>c\<in>set cs. 2 \<le> length (members cs (card_value c)) \<longrightarrow> card_id a \<le> card_id c)"
proof -
  let ?P = "\<lambda>c. 2 \<le> length (members cs (card_value c))"
  from found obtain c where f: "find ?P cs = Some c"
    and p: "p = take 2 (map card_id (members cs (card_value c)))"
    by (auto simp: find_hint_pair_flowerGroups split: option.splits)
  from f obtain i where i: "i < length cs" "?P (cs ! i)" "c = cs ! i" "\<forall>j<i. \<not> ?P (cs ! j)"
    by (auto simp: find_Some_iff)
  let ?ms = "members cs (card_value c)"
  from i have "2 \<le> length ?ms"
    by simp
  then obtain a b rest where ms: "?ms = a # b # rest"
    by (cases ?ms; cases "tl ?ms") auto
  have "sorted_wrt (\<lambda>x y. card_id x < card_id y) ?ms"
    unfolding members_def using srt by (rule sorted_wrt_filter)
  with ms have ab: "card_id a < card_id b" and ar: "\<forall>x\<in>set rest. card_id a < card_id x"
    and br: "\<forall>x\<in>set rest. card_id b < card_id x"
    by auto
  have in_ms: "x \<in> set ?ms \<longleftrightarrow> x \<in> set cs \<and> card_value x = card_value c" for x
    by (simp add: members_def)
  from ms have "a \<in> set ?ms" "b \<in> set ?ms"
    by simp_all
  then have a: "a \<in> set cs" "card_value a = card_value c"
    and b: "b \<in> set cs" "card_value b = card_value c"
    by (simp_all add: in_ms)
  from p ms have pp: "p = [card_id a, card_id b]"
    by simp
  have same: "card_id x = card_id a \<or> card_id x = card_id b \<or> card_id b < card_id x"
    if "x \<in> set cs" "card_value x = card_value a" for x
  proof -
    from that a have "x \<in> set ?ms"
      by (simp add: in_ms)
    with ms br show ?thesis
      by auto
  qed
  from i(1,3) have "c \<in> set cs"
    by simp
  then have "c \<in> set ?ms"
    by (simp add: members_def)
  with ms ab ar have ac: "card_id a \<le> card_id c"
    by auto
  have first: "card_id a \<le> card_id x" if "x \<in> set cs" "?P x" for x
  proof -
    from that(1) obtain j where j: "j < length cs" "x = cs ! j"
      by (auto simp: in_set_conv_nth)
    with that(2) i(4) have "i \<le> j"
      by (meson not_le)
    then have "card_id (cs ! i) \<le> card_id (cs ! j)"
      using srt j(1) by (cases "i = j") (simp, metis le_neq_implies_less less_imp_le sorted_wrt_iff_nth_less)
    with ac i(3) j(2) show ?thesis
      by simp
  qed
  from pp a b ab same first show ?thesis
    by (intro exI [of _ a] exI [of _ b]) auto
qed

lemma handleCardClick_hints:
  "hints (gameState (world_of (handleCardClick cardId w))) = hints (gameState w)"
  by (auto simp: click_defs split: option.splits jsconfig.splits)

lemma showWinScreen_hints:
  "hints (gameState (world_of (showWinScreen w))) = hints (gameState w)"
  by (cases "timerInterval (gameState w)")
     (auto simp: showWinScreen_def world_of_def Let_def showScreen_def clearInterval_def
        split: jsconfig.splits)

lemma run_callback_hints:
  "hints (gameState (world_of (run_callback cb w))) = hints (gameState w)"
proof (cases cb)
  case ShowWin
  then show ?thesis
    by (simp add: run_callback_def showWinScreen_hints)
qed (simp_all add: run_callback_def world_of_def set_flipped_def Let_def)

lemma fire_hints: "hints (gameState (world_of (fire h w))) = hints (gameState w)"
proof (cases "map_of (scheduled w) h")
  case None
  then show ?thesis by (simp add: fire_def world_of_def)
next
  case (Some cb)
  have "hints (gameState (world_of (run_callback cb
          (w\<lparr>scheduled := filter (\<lambda>e. fst e \<noteq> h) (scheduled w)\<rparr>)))) = hints (gameState w)"
    by (simp add: run_callback_hints)
  with Some show ?thesis
    by (cases cb) (simp_all add: fire_def run_callback_hints)
qed

lemma exec_hints:
  assumes "\<not> starts_session ev"
  shows "hints (gameState (world_of (exec rand ev w))) =
           hints (gameState w) - (if ev = Hint \<and> fst (hint w) \<noteq> None then 1 else 0)"
proof (cases ev)
  case (Start difficulty)
  with assms show ?thesis by simp
next
  case (Click cardId)
  then show ?thesis by (simp add: exec_def handleCardClick_hints)
next
  case Hint
  then show ?thesis by (simp add: exec_def world_of_def hints_hint)
next
  case (Restart confirmed)
  with assms show ?thesis by (simp add: exec_def restartGame_def world_of_def)
next
  case Quit
  then show ?thesis by (simp add: exec_def world_of_def quitGame_def)
next
  case ConfirmQuit
  then show ?thesis
    by (cases "timerInterval (gameState w)")
       (simp_all add: exec_def world_of_def confirmQuit_def hideModal_def showScreen_def
          clearInterval_def Let_def)
next
  case (Fire h)
  then show ?thesis by (simp add: exec_def fire_hints)
qed

lemma run_hints:
  assumes "list_all (\<lambda>ev. \<not> starts_session ev) evs"
  shows "hints (gameState (run rand evs v)) = hints (gameState v) - int (hint_successes rand evs v)"
  using assms
proof (induction evs arbitrary: v)
  case Nil
  then show ?case by simp
next
  case (Cons ev evs)
  then have "\<not> starts_session ev" "list_all (\<lambda>ev. \<not> starts_session ev) evs"
    by simp_all
  then show ?case
    using Cons.IH [of "world_of (exec rand ev v)"] exec_hints [of ev rand v]
    by simp
qed

lemma run_hints_nonneg:
  assumes "list_all (\<lambda>ev. \<not> starts_session ev) evs" and "0 \<le> hints (gameState v)"
  shows "0 \<le> hints (gameState (run rand evs v))"
  using assms
proof (induction evs arbitrary: v)
  case Nil
  then show ?case by simp
next
  case (Cons ev evs)
  then have ev: "\<not> starts_session ev" and evs: "list_all (\<lambda>ev. \<not> starts_session ev) evs"
    by simp_all
  have "fst (hint v) \<noteq> None \<Longrightarrow> 0 < hints (gameState v)"
    using hint_Some(3) by auto
  with Cons.prems(2) have "0 \<le> hints (gameState (world_of (exec rand ev v)))"
    unfolding exec_hints [OF ev] by auto
  from Cons.IH [OF evs this] show ?case
    by simp
qed

text \<open>Within a session the grid keeps its card objects and they keep their ids.\<close>

lemma same_grid_ids: "same_grid w' w \<Longrightarrow> map card_id (deck w') = map card_id (deck w)"
  by (simp add: same_grid_def deck_def)

lemma handleCardClick_same_grid: "same_grid (world_of (handleCardClick cardId w)) w"
  by (auto simp: same_grid_def click_defs split: option.splits jsconfig.splits)

lemma showWinScreen_same_grid: "same_grid (world_of (showWinScreen w)) w"
  by (cases "timerInterval (gameState w)")
     (auto simp: same_grid_def showWinScreen_def world_of_def Let_def showScreen_def
        clearInterval_def split: jsconfig.splits)

lemma run_callback_same_grid: "same_grid (world_of (run_callback cb w)) w"
proof (cases cb)
  case ShowWin
  then show ?thesis
    by (simp add: run_callback_def showWinScreen_same_grid)
qed (simp_all add: same_grid_def run_callback_def world_of_def set_flipped_def Let_def)

lemma fire_same_grid: "same_grid (world_of (fire h w)) w"
proof (cases "map_of (scheduled w) h")
  case None
  then show ?thesis by (simp add: fire_def world_of_def same_grid_def)
next
  case (Some cb)
  have "same_grid (world_of (run_callback cb
          (w\<lparr>scheduled := filter (\<lambda>e. fst e \<noteq> h) (scheduled w)\<rparr>))) 
          (w\<lparr>scheduled := filter (\<lambda>e. fst e \<noteq> h) (scheduled w)\<rparr>)"
    by (rule run_callback_same_grid)
  then have "same_grid (world_of (run_callback cb
          (w\<lparr>scheduled := filter (\<lambda>e. fst e \<noteq> h) (scheduled w)\<rparr>))) w"
    by (simp add: same_grid_def)
  with Some show ?thesis
    by (cases cb) (simp_all add: fire_def run_callback_same_grid)
qed

lemma exec_same_grid:
  assumes "\<not> starts_session ev"
  shows "same_grid (world_of (exec rand ev w)) w"
proof (cases ev)
  case (Start difficulty)
  with assms show ?thesis by simp
next
  case (Click cardId)
  then show ?thesis by (simp add: exec_def handleCardClick_same_grid)
next
  case Hint
  then show ?thesis
    by (simp add: exec_def world_of_def same_grid_def heap_hint cards_hint)
next
  case (Restart confirmed)
  with assms show ?thesis by (simp add: exec_def restartGame_def world_of_def same_grid_def)
next
  case Quit
  then show ?thesis by (simp add: exec_def world_of_def quitGame_def same_grid_def)
next
  case ConfirmQuit
  then show ?thesis
    by (cases "timerInterval (gameState w)")
       (simp_all add: exec_def world_of_def confirmQuit_def hideModal_def showScreen_def
          clearInterval_def Let_def same_grid_def)
next
  case (Fire h)
  then show ?thesis by (simp add: exec_def fire_same_grid)
qed

lemma run_card_ids:
  assumes "list_all (\<lambda>ev. \<not> starts_session ev) evs"
  shows "map card_id (deck (run rand evs v)) = map card_id (deck v)"
  using assms
proof (induction evs arbitrary: v)
  case Nil
  then show ?case by simp
next
  case (Cons ev evs)
  then have "\<not> starts_session ev" "list_all (\<lambda>ev. \<not> starts_session ev) evs"
    by simp_all
  then show ?case
    using Cons.IH [of "world_of (exec rand ev v)"] same_grid_ids [OF exec_same_grid, of ev rand v]
    by simp
qed

lemma in_unmatchedCards:
  "x \<in> set (unmatchedCards w) \<longleftrightarrow> x \<in> set (deck w) \<and> \<not> matched x \<and> \<not> flipped x"
  by (auto simp: unmatchedCards_deck)

lemma members_unmatchedCards:
  "members (unmatchedCards w) s =
     filter (\<lambda>d. \<not> matched d \<and> \<not> flipped d \<and> card_value d = s) (deck w)"
  by (simp add: members_def unmatchedCards_deck conj_assoc)

lemma hint_pair_on_deck:
  assumes "map card_id (deck w) = map int [0..<length (deck w)]"
    and "fst (hint w) = Some p"
  shows "\<exists>a b. p = [card_id a, card_id b] \<and>
           a \<in> set (deck w) \<and> \<not> matched a \<and> \<not> flipped a \<and>
           b \<in> set (deck w) \<and> \<not> matched b \<and> \<not> flipped b \<and>
           card_value a = card_value b \<and> card_id a < card_id b \<and>
           (\<forall>c\<in>set (deck w). \<not> matched c \<and> \<not> flipped c \<and> card_value c = card_value a \<longrightarrow>
              card_id c = card_id a \<or> card_id c = card_id b \<or> card_id b < card_id c) \<and>
           (\<forall>c\<in>set (deck w). \<not> matched c \<and> \<not> flipped c \<and>
              2 \<le> length (filter (\<lambda>d. \<not> matched d \<and> \<not> flipped d \<and>
                                    card_value d = card_value c) (deck w)) \<longrightarrow>
              card_id a \<le> card_id c) \<and>
           gameState (snd (hint w)) = (gameState w)\<lparr>hints := hints (gameState w) - 1\<rparr> \<and>
           heap (snd (hint w)) = heap w \<and>
           scheduled (snd (hint w)) =
             scheduled w @ [(nextHandle w, HintOff (card_id a)),
                            (nextHandle w + 1, HintOff (card_id b))] \<and>
           snd (hint w) =
             w\<lparr>scheduled := scheduled w @ [(nextHandle w, HintOff (card_id a)),
                                            (nextHandle w + 1, HintOff (card_id b))],
               nextHandle := nextHandle w + 2,
               gameState := (gameState w)\<lparr>hints := hints (gameState w) - 1\<rparr>\<rparr>"
proof -
  from hint_pair_props [OF unmatchedCards_sorted [OF assms(1)] hint_Some(1) [OF assms(2)]]
  obtain a b where p: "p = [card_id a, card_id b]"
    and a: "a \<in> set (unmatchedCards w)" and b: "b \<in> set (unmatchedCards w)"
    and v: "card_value a = card_value b" and lt: "card_id a < card_id b"
    and two: "\<forall>c\<in>set (unmatchedCards w). card_value c = card_value a \<longrightarrow>
                card_id c = card_id a \<or> card_id c = card_id b \<or> card_id b < card_id c"
    and first: "\<forall>c\<in>set (unmatchedCards w).
                2 \<le> length (members (unmatchedCards w) (card_value c)) \<longrightarrow> card_id a \<le> card_id c"
    by blast
  from hint_Some(2) [OF assms(2)] p
  have st: "gameState (snd (hint w)) = (gameState w)\<lparr>hints := hints (gameState w) - 1\<rparr>"
    and sc: "scheduled (snd (hint w)) =
             scheduled w @ [(nextHandle w, HintOff (card_id a)),
                            (nextHandle w + 1, HintOff (card_id b))]"
    and all: "snd (hint w) =
             w\<lparr>scheduled := scheduled w @ [(nextHandle w, HintOff (card_id a)),
                                            (nextHandle w + 1, HintOff (card_id b))],
               nextHandle := nextHandle w + 2,
               gameState := (gameState w)\<lparr>hints := hints (gameState w) - 1\<rparr>\<rparr>"
    by (simp_all add: highlight_two)
  from a b have a': "a \<in> set (deck w)" "\<not> matched a" "\<not> flipped a"
    and b': "b \<in> set (deck w)" "\<not> matched b" "\<not> flipped b"
    by (simp_all add: in_unmatchedCards)
  from two have two': "\<forall>c\<in>set (deck w). \<not> matched c \<and> \<not> flipped c \<and> card_value c = card_value a \<longrightarrow>
              card_id c = card_id a \<or> card_id c = card_id b \<or> card_id b < card_id c"
    by (simp add: in_unmatchedCards)
  from first have first': "\<forall>c\<in>set (deck w). \<not> matched c \<and> \<not> flipped c \<and>
              2 \<le> length (filter (\<lambda>d. \<not> matched d \<and> \<not> flipped d \<and>
                                    card_value d = card_value c) (deck w)) \<longrightarrow>
              card_id a \<le> card_id c"
    by (simp add: in_unmatchedCards members_unmatchedCards)
  from p a' b' v lt two' first' st sc all heap_hint [of w] show ?thesis
    by blast
qed

lemma hint_finds_pair:
  assumes "gameActive (gameState w)" and "0 < hints (gameState w)"
    and "c \<in> set (deck w)" and "\<not> matched c" and "\<not> flipped c"
    and "2 \<le> length (filter (\<lambda>d. \<not> matched d \<and> \<not> flipped d \<and>
                                 card_value d = card_value c) (deck w))"
  shows "fst (hint w) \<noteq> None"
proof -
  let ?cs = "unmatchedCards w"
  from assms(3-5) have c: "c \<in> set ?cs"
    by (simp add: in_unmatchedCards)
  from assms(6) have m: "2 \<le> length (members ?cs (card_value c))"
    by (simp add: members_unmatchedCards)
  have "length (members ?cs (card_value c)) \<le> length ?cs"
    by (simp add: members_def)
  with m have len: "\<not> length ?cs < 2"
    by simp
  from c m have "find (\<lambda>c. 2 \<le> length (members ?cs (card_value c))) ?cs \<noteq> None"
    by (auto simp: find_None_iff)
  then have "find_hint_pair (flowerGroups ?cs) \<noteq> None"
    by (auto simp: find_hint_pair_flowerGroups split: option.splits)
  with assms(1,2) len show ?thesis
    by (auto simp: hint_cases)
qed

text \<open>
  Claim C8. The ids of the cards are their positions in the grid (as \<open>createCards\<close>
  makes them and a session keeps them). A call of \<open>hint\<close> that finds a pair returns two
  ids \<open>a < b\<close> of cards of the grid that are neither matched nor face up and carry the
  same symbol; they are the two lowest ids of such cards with that symbol, and no symbol on
  two such cards or more has such a card of lower id than \<open>a\<close> (it is the first such
  symbol by the id of its first occurrence). That call takes exactly one hint off, sets the
  two timeouts that end the highlight and changes nothing else of the state and no card. A
  call that finds no pair changes nothing at all. In an active session with a hint left a
  pair is found whenever some symbol is on two such cards. With no hint left the call does
  nothing. Within a session the hints left are those at the start less the calls that
  found a pair: from three hints there are at most three such calls, and after the third
  every further call does nothing.
\<close>

theorem hint_contract:
  assumes "map card_id (deck w) = map int [0..<length (deck w)]"
    and "list_all (\<lambda>ev. \<not> starts_session ev) evs"
  shows "(\<forall>p. fst (hint w) = Some p \<longrightarrow>
            (\<exists>a b. p = [card_id a, card_id b] \<and>
               a \<in> set (deck w) \<and> \<not> matched a \<and> \<not> flipped a \<and>
               b \<in> set (deck w) \<and> \<not> matched b \<and> \<not> flipped b \<and>
               card_value a = card_value b \<and> card_id a < card_id b \<and>
               (\<forall>c\<in>set (deck w).
                  \<not> matched c \<and> \<not> flipped c \<and> card_value c = card_value a \<longrightarrow>
                  card_id c = card_id a \<or> card_id c = card_id b \<or> card_id b < card_id c) \<and>
               (\<forall>c\<in>set (deck w).
                  \<not> matched c \<and> \<not> flipped c \<and>
                  2 \<le> length (filter (\<lambda>d. \<not> matched d \<and> \<not> flipped d \<and>
                                        card_value d = card_value c) (deck w)) \<longrightarrow>
                  card_id a \<le> card_id c) \<and>
               gameState (snd (hint w)) = (gameState w)\<lparr>hints := hints (gameState w) - 1\<rparr> \<and>
               heap (snd (hint w)) = heap w \<and>
               scheduled (snd (hint w)) =
                 scheduled w @ [(nextHandle w, HintOff (card_id a)),
                                (nextHandle w + 1, HintOff (card_id b))] \<and>
               snd (hint w) =
                 w\<lparr>scheduled := scheduled w @ [(nextHandle w, HintOff (card_id a)),
                                                (nextHandle w + 1, HintOff (card_id b))],
                   nextHandle := nextHandle w + 2,
                   gameState := (gameState w)\<lparr>hints := hints (gameState w) - 1\<rparr>\<rparr>)) \<and>
         (fst (hint w) = None \<longrightarrow> snd (hint w) = w) \<and>
         deck (snd (hint w)) = deck w \<and>
         (gameActive (gameState w) \<and> 0 < hints (gameState w) \<and>
          (\<exists>c\<in>set (deck w). \<not> matched c \<and> \<not> flipped c \<and>
             2 \<le> length (filter (\<lambda>d. \<not> matched d \<and> \<not> flipped d \<and>
                                   card_value d = card_value c) (deck w))) \<longrightarrow>
          fst (hint w) \<noteq> None) \<and>
         (hints (gameState w) \<le> 0 \<longrightarrow> hint w = (None, w)) \<and>
         hints (gameState (run rand evs v)) =
           hints (gameState v) - int (hint_successes rand evs v) \<and>
         map card_id (deck (run rand evs v)) = map card_id (deck v) \<and>
         (hints (gameState v) = 3 \<longrightarrow>
            hint_successes rand evs v \<le> 3 \<and>
            (hint_successes rand evs v = 3 \<longrightarrow>
               hint (run rand evs v) = (None, run rand evs v)))"
proof -
  note pair = hint_pair_on_deck [OF assms(1)]
  have none: "fst (hint w) = None \<longrightarrow> snd (hint w) = w"
    by (simp add: hint_None)
  have finds: "gameActive (gameState w) \<and> 0 < hints (gameState w) \<and>
          (\<exists>c\<in>set (deck w). \<not> matched c \<and> \<not> flipped c \<and>
             2 \<le> length (filter (\<lambda>d. \<not> matched d \<and> \<not> flipped d \<and>
                                   card_value d = card_value c) (deck w))) \<longrightarrow>
          fst (hint w) \<noteq> None"
    using hint_finds_pair [of w] by blast
  have spent: "hints (gameState w) \<le> 0 \<longrightarrow> hint w = (None, w)"
    by (simp add: hint_cases)
  have count: "hints (gameState (run rand evs v)) =
                 hints (gameState v) - int (hint_successes rand evs v)"
    by (rule run_hints [OF assms(2)])
  have three: "hint_successes rand evs v \<le> 3 \<and>
            (hint_successes rand evs v = 3 \<longrightarrow> hint (run rand evs v) = (None, run rand evs v))"
    if "hints (gameState v) = 3"
  proof -
    from run_hints_nonneg [OF assms(2), of v rand] that
    have "0 \<le> hints (gameState (run rand evs v))"
      by simp
    with count that have le: "hint_successes rand evs v \<le> 3"
      by simp
    have "hint (run rand evs v) = (None, run rand evs v)" if "hint_successes rand evs v = 3"
      using count \<open>hints (gameState v) = 3\<close> that by (simp add: hint_cases)
    with le show ?thesis
      by simp
  qed
  from three have three': "hints (gameState v) = 3 \<longrightarrow>
            hint_successes rand evs v \<le> 3 \<and>
            (hint_successes rand evs v = 3 \<longrightarrow> hint (run rand evs v) = (None, run rand evs v))"
    by blast
  have pairs: "\<forall>p. fst (hint w) = Some p \<longrightarrow>
            (\<exists>a b. p = [card_id a, card_id b] \<and>
               a \<in> set (deck w) \<and> \<not> matched a \<and> \<not> flipped a \<and>
               b \<in> set (deck w) \<and> \<not> matched b \<and> \<not> flipped b \<and>
               card_value a = card_value b \<and> card_id a < card_id b \<and>
               (\<forall>c\<in>set (deck w).
                  \<not> matched c \<and> \<not> flipped c \<and> card_value c = card_value a \<longrightarrow>
                  card_id c = card_id a \<or> card_id c = card_id b \<or> card_id b < card_id c) \<and>
               (\<forall>c\<in>set (deck w).
                  \<not> matched c \<and> \<not> flipped c \<and>
                  2 \<le> length (filter (\<lambda>d. \<not> matched d \<and> \<not> flipped d \<and>
                                        card_value d = card_value c) (deck w)) \<longrightarrow>
                  card_id a \<le> card_id c) \<and>
               gameState (snd (hint w)) = (gameState w)\<lparr>hints := hints (gameState w) - 1\<rparr> \<and>
               heap (snd (hint w)) = heap w \<and>
               scheduled (snd (hint w)) =
                 scheduled w @ [(nextHandle w, HintOff (card_id a)),
                                (nextHandle w + 1, HintOff (card_id b))] \<and>
               snd (hint w) =
                 w\<lparr>scheduled := scheduled w @ [(nextHandle w, HintOff (card_id a)),
                                                (nextHandle w + 1, HintOff (card_id b))],
                   nextHandle := nextHandle w + 2,
                   gameState := (gameState w)\<lparr>hints := hints (gameState w) - 1\<rparr>\<rparr>)"
    by (intro allI impI) (rule pair)
  have dk: "deck (snd (hint w)) = deck w"
    by (rule deck_hint)
  have kept: "map card_id (deck (run rand evs v)) = map card_id (deck v)"
    by (rule run_card_ids [OF assms(2)])
  from pairs none dk finds spent count kept three' show ?thesis
    by (intro conjI) assumption+
qed

lemma snapshot_easy_one_matched_one_up:
  "snapshot easy_one_matched_one_up =
     (\<lparr>cards = [0, 1, 2, 3, 4, 5, 6, 7, 8, 9, 10, 11, 12, 13, 14, 15],
       flippedCards = [1], matchedPairs = 1, moveCount = 1, gameActive = True,
       timer = 0, timerInterval = Some 1, currentDifficulty = ''easy'', hints = 3\<rparr>,
      map (\<lambda>i. \<lparr>card_id = int i, card_value = (take 8 flowers @ take 8 flowers) ! i,
                 flipped = (i \<in> {0, 1, 8}), matched = (i \<in> {0, 8})\<rparr>) [0..<16],
      [(1, Tick)], ''game-screen'', None)"
  by code_simp

lemma hint_easy_one_matched_one_up:
  "fst (hint easy_one_matched_one_up) = Some [2, 10]"
  "nextHandle easy_one_matched_one_up = 2"
  "hint_successes id [Hint, Hint, Hint] easy_one_matched_one_up = 3"
  by code_simp+

text \<open>
  The theorem at the session on easy in which the cards 0 and 8 are matched and the card 1
  is face up: the first flower is matched and the second has one card face down only, so
  the hint is the third flower, on the cards 2 and 10. Then three hints in a row from
  there.
\<close>

theorem hint_contract_witness:
  "map card_id (deck easy_one_matched_one_up) = map int [0..<length (deck easy_one_matched_one_up)] \<and>
   list_all (\<lambda>ev. \<not> starts_session ev) [Hint, Hint, Hint] \<and>
   matched (deck easy_one_matched_one_up ! 0) \<and> matched (deck easy_one_matched_one_up ! 8) \<and>
   flipped (deck easy_one_matched_one_up ! 1) \<and> \<not> matched (deck easy_one_matched_one_up ! 1) \<and>
   fst (hint easy_one_matched_one_up) = Some [2, 10] \<and>
   hints (gameState easy_one_matched_one_up) = 3 \<and>
   hints (gameState (snd (hint easy_one_matched_one_up))) = 2 \<and>
   deck (snd (hint easy_one_matched_one_up)) = deck easy_one_matched_one_up \<and>
   scheduled (snd (hint easy_one_matched_one_up)) = [(1, Tick), (2, HintOff 2), (3, HintOff 10)] \<and>
   hint_successes id [Hint, Hint, Hint] easy_one_matched_one_up = 3 \<and>
   hints (gameState (run id [Hint, Hint, Hint] easy_one_matched_one_up)) = 0 \<and>
   hint (run id [Hint, Hint, Hint] easy_one_matched_one_up) =
     (None, run id [Hint, Hint, Hint] easy_one_matched_one_up)"
proof -
  let ?w = "easy_one_matched_one_up"
  have g: "gameState ?w =
     \<lparr>cards = [0, 1, 2, 3, 4, 5, 6, 7, 8, 9, 10, 11, 12, 13, 14, 15],
       flippedCards = [1], matchedPairs = 1, moveCount = 1, gameActive = True,
       timer = 0, timerInterval = Some 1, currentDifficulty = ''easy'', hints = 3\<rparr>"
    and d: "deck ?w = map (\<lambda>i. \<lparr>card_id = int i, card_value = (take 8 flowers @ take 8 flowers) ! i,
                 flipped = (i \<in> {0, 1, 8}), matched = (i \<in> {0, 8})\<rparr>) [0..<16]"
    and s: "scheduled ?w = [(1, Tick)]"
    using snapshot_easy_one_matched_one_up by (simp_all add: snapshot_def)
  have ids: "map card_id (deck ?w) = map int [0..<length (deck ?w)]"
    by (simp add: d comp_def)
  have evs: "list_all (\<lambda>ev. \<not> starts_session ev) [Hint, Hint, Hint]"
    by simp
  have board: "matched (deck ?w ! 0)" "matched (deck ?w ! 8)" "flipped (deck ?w ! 1)"
    "\<not> matched (deck ?w ! 1)"
    by (simp_all add: d)
  have h3: "hints (gameState ?w) = 3"
    by (simp add: g)
  note inst = hint_contract [OF ids evs, where rand = id and v = ?w]
  from inst [THEN conjunct1, rule_format, OF hint_easy_one_matched_one_up(1)]
  obtain a b :: cardObj where
    ab: "[2, 10] = [card_id a, card_id b]"
    and st: "gameState (snd (hint ?w)) = (gameState ?w)\<lparr>hints := hints (gameState ?w) - 1\<rparr>"
    and sc: "scheduled (snd (hint ?w)) =
               scheduled ?w @ [(nextHandle ?w, HintOff (card_id a)),
                               (nextHandle ?w + 1, HintOff (card_id b))]"
    by blast
  from st have two: "hints (gameState (snd (hint ?w))) = 2"
    by (simp add: g)
  from sc ab have tm: "scheduled (snd (hint ?w)) = [(1, Tick), (2, HintOff 2), (3, HintOff 10)]"
    by (simp add: s hint_easy_one_matched_one_up(2))
  note rest = inst [THEN conjunct2, THEN conjunct2]
  have dk: "deck (snd (hint ?w)) = deck ?w"
    by (rule rest [THEN conjunct1])
  note rest' = rest [THEN conjunct2, THEN conjunct2, THEN conjunct2]
  have left: "hints (gameState (run id [Hint, Hint, Hint] ?w)) =
      hints (gameState ?w) - int (hint_successes id [Hint, Hint, Hint] ?w)"
    by (rule rest' [THEN conjunct1])
  have last: "hint (run id [Hint, Hint, Hint] ?w) = (None, run id [Hint, Hint, Hint] ?w)"
    by (rule rest' [THEN conjunct2, THEN conjunct2, rule_format, OF h3, THEN conjunct2,
        rule_format, OF hint_easy_one_matched_one_up(3)])
  from ids evs board hint_easy_one_matched_one_up(1,3) h3 two dk tm left last
  show ?thesis
    by simp
qed

subsection \<open>A hint when no two cards face down match\<close>

text \<open>
  Claim C10. In an active session with a hint left and at least two cards that are neither
  matched nor face up, if no symbol is on two such cards then \<open>hint\<close> picks no pair and
  leaves the world, the hints left included, as it was.
\<close>

theorem hint_without_pair:
  assumes "gameActive (gameState w)" and "0 < hints (gameState w)"
    and "2 \<le> length (unmatchedCards w)"
    and "\<forall>s. length (members (unmatchedCards w) s) < 2"
  shows "hint w = (None, w)"
proof -
  from assms(4) have "find (\<lambda>c. 2 \<le> length (members (unmatchedCards w) (card_value c)))
      (unmatchedCards w) = None"
    by (simp add: find_None_iff not_le)
  then have "find_hint_pair (flowerGroups (unmatchedCards w)) = None"
    by (simp add: find_hint_pair_flowerGroups)
  then show ?thesis
    by (simp add: hint_cases)
qed

lemma snapshot_easy_two_face_down:
  "snapshot easy_two_face_down =
     (\<lparr>cards = [0, 1, 2, 3, 4, 5, 6, 7, 8, 9, 10, 11, 12, 13, 14, 15],
       flippedCards = [6, 7], matchedPairs = 6, moveCount = 7, gameActive = True,
       timer = 0, timerInterval = Some 1, currentDifficulty = ''easy'', hints = 3\<rparr>,
      map (\<lambda>i. \<lparr>card_id = int i, card_value = (take 8 flowers @ take 8 flowers) ! i,
                 flipped = (i \<noteq> 14 \<and> i \<noteq> 15), matched = (i \<notin> {6, 7, 14, 15})\<rparr>) [0..<16],
      [(1, Tick), (2, FlipBack 6 7)], ''game-screen'', None)"
  by code_simp

lemma unmatchedCards_easy_two_face_down:
  "unmatchedCards easy_two_face_down =
     [\<lparr>card_id = 14, card_value = [0x1F337], flipped = False, matched = False\<rparr>,
      \<lparr>card_id = 15, card_value = [0x1F33F], flipped = False, matched = False\<rparr>]"
  by code_simp

text \<open>
  The theorem at the session in which six pairs are matched and the cards 6 and 7, which
  do not match, wait to flip back: the cards 14 and 15 are face down and differ.
\<close>

theorem hint_without_pair_witness:
  "gameActive (gameState easy_two_face_down) \<and>
   hints (gameState easy_two_face_down) = 3 \<and>
   flippedCards (gameState easy_two_face_down) = [6, 7] \<and>
   scheduled easy_two_face_down = [(1, Tick), (2, FlipBack 6 7)] \<and>
   map card_id (unmatchedCards easy_two_face_down) = [14, 15] \<and>
   (\<forall>s. length (members (unmatchedCards easy_two_face_down) s) < 2) \<and>
   hint easy_two_face_down = (None, easy_two_face_down)"
proof -
  have g: "gameState easy_two_face_down =
     \<lparr>cards = [0, 1, 2, 3, 4, 5, 6, 7, 8, 9, 10, 11, 12, 13, 14, 15],
       flippedCards = [6, 7], matchedPairs = 6, moveCount = 7, gameActive = True,
       timer = 0, timerInterval = Some 1, currentDifficulty = ''easy'', hints = 3\<rparr>"
    and s: "scheduled easy_two_face_down = [(1, Tick), (2, FlipBack 6 7)]"
    using snapshot_easy_two_face_down by (simp_all add: snapshot_def)
  have a: "gameActive (gameState easy_two_face_down)" and h: "0 < hints (gameState easy_two_face_down)"
    by (simp_all add: g)
  have l: "2 \<le> length (unmatchedCards easy_two_face_down)"
    by (simp add: unmatchedCards_easy_two_face_down)
  have m: "\<forall>s. length (members (unmatchedCards easy_two_face_down) s) < 2"
    by (auto simp: unmatchedCards_easy_two_face_down members_def)
  from hint_without_pair [OF a h l m] a m s show ?thesis
    by (simp add: g unmatchedCards_easy_two_face_down)
qed

end
